theory Spec2Isabelle
  imports Complex_Main "HOL-Library.Sublist"
begin

section \<open>Raw API responses\<close>

text \<open>
  The value that \<^verbatim>\<open>axios.get\<close> hands to a page is untyped JSON. The response
  normalizers only ask whether a value is an array and read named properties with
  optional chaining, so a raw response is a JavaScript value whose arrays hold the
  records of the page (type \<open>'r\<close>); the normalizers never look inside an element.
  An object is its list of properties; a property that occurs twice is read at its
  first occurrence.
\<close>

datatype 'r jsval =
    JUndefined
  | JNull
  | JBool bool
  | JNum real
  | JStr string
  | JArr "'r list"
  | JObj "(string \<times> 'r jsval) list"

text \<open>\<^verbatim>\<open>Array.isArray(v)\<close>.\<close>

fun isArray :: "'r jsval \<Rightarrow> bool" where
  "isArray (JArr xs) = True"
| "isArray _ = False"

text \<open>
  \<^verbatim>\<open>v?.k\<close> for the property names the pages read (\<^verbatim>\<open>admins\<close>, \<^verbatim>\<open>users\<close>,
  \<^verbatim>\<open>payments\<close>, \<^verbatim>\<open>data\<close>): \<^verbatim>\<open>undefined\<close> on \<^verbatim>\<open>null\<close> and \<^verbatim>\<open>undefined\<close>
  by the optional chaining, \<^verbatim>\<open>undefined\<close> on primitives and arrays, which have no
  such property, and the property's value on an object.
\<close>

fun getProp :: "'r jsval \<Rightarrow> string \<Rightarrow> 'r jsval" where
  "getProp (JObj kvs) k = (case map_of kvs k of Some v \<Rightarrow> v | None \<Rightarrow> JUndefined)"
| "getProp _ k = JUndefined"

text \<open>JavaScript truthiness, as used by \<^verbatim>\<open>response?.data && ...\<close>.\<close>

fun truthy :: "'r jsval \<Rightarrow> bool" where
  "truthy JUndefined = False"
| "truthy JNull = False"
| "truthy (JBool b) = b"
| "truthy (JNum n) = (n \<noteq> 0)"
| "truthy (JStr s) = (s \<noteq> [])"
| "truthy (JArr xs) = True"
| "truthy (JObj kvs) = True"

section \<open>Response normalizers\<close>

text \<open>
  Each page has its own normalizer. The \<^verbatim>\<open>console.warn\<close> of the fall-through
  branch is a diagnostic only and is not part of the returned value. No branch
  can throw: every property read on the response itself is optionally chained, and
  the unchained reads happen only after \<^verbatim>\<open>Array.isArray\<close> has succeeded on the
  same property.
\<close>

text \<open>
  The records of a value that \<^verbatim>\<open>Array.isArray\<close> has accepted: the normalizers
  return such a value as it is.
\<close>

fun elements :: "'r jsval \<Rightarrow> 'r list" where
  "elements (JArr xs) = xs"
| "elements _ = []"

text \<open>\<^verbatim>\<open>extractAdminsFromResponse\<close> of the Admins page.\<close>

definition extractAdminsFromResponse :: "'r jsval \<Rightarrow> 'r list" where
  "extractAdminsFromResponse response =
     (if isArray response then elements response
      else if isArray (getProp response ''admins'') then elements (getProp response ''admins'')
      else if isArray (getProp response ''users'') then elements (getProp response ''users'')
      else if isArray (getProp response ''data'') then elements (getProp response ''data'')
      else if truthy (getProp response ''data'')
              \<and> isArray (getProp (getProp response ''data'') ''admins'')
      then elements (getProp (getProp response ''data'') ''admins'')
      else [])"

text \<open>\<^verbatim>\<open>extractUsersFromResponse\<close> of the Users page.\<close>

definition extractUsersFromResponse :: "'r jsval \<Rightarrow> 'r list" where
  "extractUsersFromResponse response =
     (if isArray (getProp response ''data'') then elements (getProp response ''data'')
      else [])"

text \<open>\<^verbatim>\<open>extractAssistantsFromResponse\<close> of the Assistants page.\<close>

definition extractAssistantsFromResponse :: "'r jsval \<Rightarrow> 'r list" where
  "extractAssistantsFromResponse response =
     (if isArray (getProp response ''data'') then elements (getProp response ''data'')
      else [])"

text \<open>\<^verbatim>\<open>extractPaymentsFromResponse\<close> of the Payments page.\<close>

definition extractPaymentsFromResponse :: "'r jsval \<Rightarrow> 'r list" where
  "extractPaymentsFromResponse response =
     (if isArray response then elements response
      else if isArray (getProp response ''payments'') then elements (getProp response ''payments'')
      else if isArray (getProp response ''data'') then elements (getProp response ''data'')
      else [])"

section \<open>Strings\<close>

text \<open>
  A string is the list of its UTF-16 code units, and a character is a code unit
  below 256 (the Latin-1 range); strings with other code units are outside the
  model. On this range \<^verbatim>\<open>toLowerCase\<close> maps the letters A to Z and the
  accented capitals U+00C0 to U+00DE, the multiplication sign U+00D7 apart, to the
  code unit 32 above, and leaves every other code unit as it is. \<^verbatim>\<open>trim\<close>
  removes the white space of the range: tab, line feed, vertical tab, form feed,
  carriage return, space and no-break space.
\<close>

definition toLowerChar :: "char \<Rightarrow> char" where
  "toLowerChar c =
     (let n = (of_char c :: nat)
      in if (65 \<le> n \<and> n \<le> 90) \<or> (192 \<le> n \<and> n \<le> 222 \<and> n \<noteq> 215)
         then char_of (n + 32) else c)"

definition toLowerCase :: "string \<Rightarrow> string" where
  "toLowerCase s = map toLowerChar s"

text \<open>\<^verbatim>\<open>s.includes(t)\<close>: \<open>t\<close> occurs in \<open>s\<close> as a contiguous substring.\<close>

fun includes_str :: "string \<Rightarrow> string \<Rightarrow> bool" where
  "includes_str [] t = (t = [])"
| "includes_str (c # s) t = (prefix t (c # s) \<or> includes_str s t)"

definition isWhiteSpace :: "char \<Rightarrow> bool" where
  "isWhiteSpace c = ((of_char c :: nat) \<in> {9, 10, 11, 12, 13, 32, 160})"

definition trim :: "string \<Rightarrow> string" where
  "trim s = rev (dropWhile isWhiteSpace (rev (dropWhile isWhiteSpace s)))"

text \<open>
  A property of a record that the server may leave out is an \<open>option\<close>; \<open>None\<close> is
  the property that is absent (\<^verbatim>\<open>undefined\<close>) or \<^verbatim>\<open>null\<close>. \<^verbatim>\<open>v || d\<close> on such
  a string takes the default when the property is absent or \<^verbatim>\<open>null\<close> and also
  when it is the empty string.
\<close>

definition orDefault :: "string option \<Rightarrow> string \<Rightarrow> string" where
  "orDefault v d = (case v of None \<Rightarrow> d | Some s \<Rightarrow> if s = [] then d else s)"

text \<open>Truthiness of an optional string (\<^verbatim>\<open>!v\<close>, \<^verbatim>\<open>v ? a : b\<close>, \<^verbatim>\<open>v && w\<close>).\<close>

definition present :: "string option \<Rightarrow> bool" where
  "present v = (case v of None \<Rightarrow> False | Some s \<Rightarrow> s \<noteq> [])"

text \<open>
  The operators above do not tell a property that is absent from one that the
  server sent as \<^verbatim>\<open>null\<close>, so \<open>None\<close> stands for both wherever a record is read
  through them only. The search of the Admins page reads the properties of an
  admin in two more ways, which do tell them apart or throw; the properties of an
  admin therefore keep the three cases.
\<close>

datatype 'a jsprop = Absent | Null | Given 'a

fun optionOf :: "'a jsprop \<Rightarrow> 'a option" where
  "optionOf Absent = None"
| "optionOf Null = None"
| "optionOf (Given x) = Some x"

text \<open>
  An interpolation \<^verbatim>\<open>${v}\<close> in a template literal prints an absent property as
  the word \<^verbatim>\<open>undefined\<close> and a \<^verbatim>\<open>null\<close> as the word \<^verbatim>\<open>null\<close>.
\<close>

fun interpolate :: "string jsprop \<Rightarrow> string" where
  "interpolate Absent = ''undefined''"
| "interpolate Null = ''null''"
| "interpolate (Given s) = s"

text \<open>
  A method call on a property that is absent or \<^verbatim>\<open>null\<close> throws a
  \<^verbatim>\<open>TypeError\<close>; \<open>Inl\<close> is the thrown error.
\<close>

datatype js_error = TypeError

fun toLowerCaseOf :: "string jsprop \<Rightarrow> js_error + string" where
  "toLowerCaseOf Absent = Inl TypeError"
| "toLowerCaseOf Null = Inl TypeError"
| "toLowerCaseOf (Given s) = Inr (toLowerCase s)"

section \<open>Dates\<close>

text \<open>
  A \<^verbatim>\<open>Date\<close> is its time value in milliseconds since the epoch; an invalid date
  (time value \<^verbatim>\<open>NaN\<close>) is \<open>None\<close>, and every comparison with it is false. The
  clock of the browser is a parameter: the current instant; the two conversions
  of the viewer's time zone, \<open>localTime\<close> from an instant to the reading of the
  local clock (the abstract operation LocalTime of ECMAScript) and \<open>utc\<close> from a
  reading of the local clock to an instant (the abstract operation UTC), both in
  milliseconds; the parser behind \<^verbatim>\<open>new Date(string)\<close>; and
  \<^verbatim>\<open>toISOString\<close>. Nothing is assumed about the zone: its offset may change.
\<close>

record clock =
  now :: int
  localTime :: "int \<Rightarrow> int"
  utc :: "int \<Rightarrow> int"
  parseDate :: "string \<Rightarrow> int option"
  toISOString :: "int \<Rightarrow> string"

definition msPerDay :: int where
  "msPerDay = 86400000"

text \<open>The day number and the time within the day of a reading of the local clock.\<close>

definition dayOf :: "int \<Rightarrow> int" where
  "dayOf t = t div msPerDay"

definition timeWithinDay :: "int \<Rightarrow> int" where
  "timeWithinDay t = t mod msPerDay"

text \<open>
  \<^verbatim>\<open>new Date(now.getFullYear(), now.getMonth(), now.getDate())\<close>: the year, month
  and date are those of the local reading of \<open>now\<close> (a year past 99, which the
  constructor takes as it is), so the constructor makes the local reading 00:00 of
  the same calendar day and converts it to an instant.
\<close>

definition startOfToday :: "clock \<Rightarrow> int" where
  "startOfToday c = utc c (dayOf (localTime c (now c)) * msPerDay)"

text \<open>
  \<^verbatim>\<open>d.setDate(d.getDate() - k)\<close>: calendar arithmetic on the local reading of
  \<open>d\<close>. The day number goes back by \<open>k\<close>, the time within the day is kept, and
  the new reading is converted to an instant.
\<close>

definition setDateBack :: "clock \<Rightarrow> int \<Rightarrow> int \<Rightarrow> int" where
  "setDateBack c d k =
     (let t = localTime c d
      in utc c ((dayOf t - k) * msPerDay + timeWithinDay t))"

definition dateGe :: "int option \<Rightarrow> int \<Rightarrow> bool" where
  "dateGe d b = (case d of None \<Rightarrow> False | Some t \<Rightarrow> b \<le> t)"

definition dateLt :: "int option \<Rightarrow> int \<Rightarrow> bool" where
  "dateLt d b = (case d of None \<Rightarrow> False | Some t \<Rightarrow> t < b)"

text \<open>
  The \<^verbatim>\<open>switch (dateFilter)\<close> inside the date filter. The Users, Assistants and
  Payments pages carry the same text; \<open>d\<close> is the record's creation date.
\<close>

definition inDateBucket :: "clock \<Rightarrow> string \<Rightarrow> int option \<Rightarrow> bool" where
  "inDateBucket c dateFilter d =
     (let today = startOfToday c;
          yesterday = setDateBack c today 1;
          last7Days = setDateBack c today 7;
          last30Days = setDateBack c today 30
      in if dateFilter = ''today'' then dateGe d today
         else if dateFilter = ''yesterday'' then dateGe d yesterday \<and> dateLt d today
         else if dateFilter = ''last7'' then dateGe d last7Days
         else if dateFilter = ''last30'' then dateGe d last30Days
         else True)"

text \<open>\<^verbatim>\<open>xs.slice(start, end)\<close>, negative indices counting from the end.\<close>

definition slice :: "'a list \<Rightarrow> int \<Rightarrow> int \<Rightarrow> 'a list" where
  "slice xs start stop =
     (let n = int (length xs);
          lo = (if start < 0 then max (n + start) 0 else min start n);
          hi = (if stop < 0 then max (n + stop) 0 else min stop n)
      in take (nat (hi - lo)) (drop (nat lo) xs))"

text \<open>\<^verbatim>\<open>const [itemsPerPage] = useState(10)\<close>: never set again.\<close>

definition itemsPerPage :: int where
  "itemsPerPage = 10"

section \<open>Records\<close>

text \<open>
  The four record kinds, after the interfaces of the pages. \<open>ident\<close> is the
  property \<^verbatim>\<open>_id\<close>, which every stored document has. Every other property may be
  absent or \<^verbatim>\<open>null\<close> in the JSON that arrives, whatever the interface declares.
\<close>

record Admin =
  ident :: string
  firstname :: "string jsprop"
  lastname :: "string jsprop"
  email :: "string jsprop"
  phonenumber :: "string jsprop"
  role :: "string jsprop"
  createdAt :: "string jsprop"
  updatedAt :: "string jsprop"

record Plan =
  name :: "string option"
  expiresAt :: "string option"

record User =
  ident :: string
  firstname :: "string option"
  lastname :: "string option"
  email :: "string option"
  phonenumber :: "string option"
  jobEmail :: "string option"
  jobPassword :: "string option"
  cv :: "string option"
  preferredIndustries :: "string option"
  preferredRoles :: "string option"
  preferredLocations :: "string option"
  plan :: "Plan option"
  assistant :: "string option"
  jobs :: "string list option"
  createdAt :: "string option"
  updatedAt :: "string option"

record Assistant =
  ident :: string
  firstname :: "string option"
  lastname :: "string option"
  email :: "string option"
  status :: "string option"
  clients :: "string list option"
  jobs :: "string list option"
  messages :: "string list option"
  createdAt :: "string option"
  updatedAt :: "string option"

record Payment =
  ident :: string
  userId :: "string option"
  userFirstName :: "string option"
  userLastName :: "string option"
  userEmail :: "string option"
  userPhone :: "string option"
  planName :: "string option"
  planPrice :: "real option"
  planDuration :: "string option"
  amount :: "real option"
  currency :: "string option"
  status :: "string option"
  paymentMethod :: "string option"
  stripeSessionId :: "string option"
  stripePaymentIntentId :: "string option"
  createdAt :: "string option"
  completedAt :: "string option"
  updatedAt :: "string option"

section \<open>Admins page: search\<close>

text \<open>
  The predicate of \<^verbatim>\<open>filteredAdmins\<close>. The disjunction is evaluated left to
  right and stops at the first true disjunct. The name is a template literal; the
  phone number and the role are guarded by \<^verbatim>\<open>|| ""\<close>; \<^verbatim>\<open>admin.email.toLowerCase()\<close>
  is called on the property as it is.
\<close>

definition adminMatches :: "string \<Rightarrow> Admin \<Rightarrow> js_error + bool" where
  "adminMatches searchTerm admin =
     (if includes_str
           (toLowerCase (interpolate (Admin.firstname admin) @ '' '' @ interpolate (Admin.lastname admin)))
           (toLowerCase searchTerm)
      then Inr True
      else
        (case toLowerCaseOf (Admin.email admin) of
           Inl e \<Rightarrow> Inl e
         | Inr emailLower \<Rightarrow>
             Inr (includes_str emailLower (toLowerCase searchTerm)
                  \<or> includes_str (toLowerCase (orDefault (optionOf (Admin.phonenumber admin)) []))
                       (toLowerCase searchTerm)
                  \<or> includes_str (toLowerCase (orDefault (optionOf (Admin.role admin)) []))
                       (toLowerCase searchTerm))))"

text \<open>\<^verbatim>\<open>xs.filter(p)\<close> for a predicate that may throw: the first throw ends the filter.\<close>

fun filterThrowing :: "('a \<Rightarrow> js_error + bool) \<Rightarrow> 'a list \<Rightarrow> js_error + 'a list" where
  "filterThrowing p [] = Inr []"
| "filterThrowing p (x # xs) =
     (case p x of
        Inl e \<Rightarrow> Inl e
      | Inr b \<Rightarrow>
          (case filterThrowing p xs of
             Inl e \<Rightarrow> Inl e
           | Inr ys \<Rightarrow> Inr (if b then x # ys else ys)))"

definition filteredAdmins :: "Admin list \<Rightarrow> string \<Rightarrow> js_error + Admin list" where
  "filteredAdmins admins searchTerm = filterThrowing (adminMatches searchTerm) admins"

section \<open>Users page: accessors and filters\<close>

text \<open>
  Accessors that more than one page declares under the same name carry the record
  kind as a suffix.
\<close>

definition getSafeUserName_user :: "User \<Rightarrow> string" where
  "getSafeUserName_user user =
     orDefault (User.firstname user) ''Unknown'' @ '' '' @ orDefault (User.lastname user) ''User''"

definition getSafeEmail_user :: "User \<Rightarrow> string" where
  "getSafeEmail_user user = orDefault (User.email user) ''N/A''"

definition getSafePhone_user :: "User \<Rightarrow> string" where
  "getSafePhone_user user = orDefault (User.phonenumber user) ''N/A''"

text \<open>\<^verbatim>\<open>user.plan?.name\<close> and \<^verbatim>\<open>user.plan?.expiresAt\<close>.\<close>

definition planNameOf :: "User \<Rightarrow> string option" where
  "planNameOf user = (case User.plan user of None \<Rightarrow> None | Some p \<Rightarrow> Plan.name p)"

definition planExpiresAtOf :: "User \<Rightarrow> string option" where
  "planExpiresAtOf user = (case User.plan user of None \<Rightarrow> None | Some p \<Rightarrow> Plan.expiresAt p)"

definition getSafePlanName_user :: "User \<Rightarrow> string" where
  "getSafePlanName_user user = orDefault (planNameOf user) ''No Plan''"

text \<open>The date formatter of the browser (\<^verbatim>\<open>toLocaleDateString\<close>) is a parameter.\<close>

definition getPlanExpiry :: "(string \<Rightarrow> string) \<Rightarrow> User \<Rightarrow> string" where
  "getPlanExpiry toLocaleDateString user =
     (case planExpiresAtOf user of
        None \<Rightarrow> ''No active plan''
      | Some e \<Rightarrow> if e = [] then ''No active plan'' else toLocaleDateString e)"

definition getJobCount_user :: "User \<Rightarrow> nat" where
  "getJobCount_user user = (case User.jobs user of None \<Rightarrow> 0 | Some js \<Rightarrow> length js)"

definition getSafeCreatedAt_user :: "clock \<Rightarrow> User \<Rightarrow> string" where
  "getSafeCreatedAt_user c user = orDefault (User.createdAt user) (toISOString c (now c))"

definition getSafeIndustries :: "User \<Rightarrow> string" where
  "getSafeIndustries user = orDefault (User.preferredIndustries user) ''Not specified''"

definition getSafeRoles :: "User \<Rightarrow> string" where
  "getSafeRoles user = orDefault (User.preferredRoles user) ''Not specified''"

definition getSafeLocations :: "User \<Rightarrow> string" where
  "getSafeLocations user = orDefault (User.preferredLocations user) ''Not specified''"

definition getHasAssistant :: "User \<Rightarrow> string" where
  "getHasAssistant user = (if present (User.assistant user) then ''Yes'' else ''No'')"

text \<open>The three filter predicates of the filter effect of the Users page.\<close>

definition userMatchesSearch :: "string \<Rightarrow> User \<Rightarrow> bool" where
  "userMatchesSearch searchLower user =
     (let userName = toLowerCase (getSafeUserName_user user);
          userEmail = toLowerCase (getSafeEmail_user user);
          userPhone = toLowerCase (getSafePhone_user user);
          industries = toLowerCase (getSafeIndustries user);
          roles = toLowerCase (getSafeRoles user);
          locations = toLowerCase (getSafeLocations user)
      in includes_str userName searchLower
         \<or> includes_str userEmail searchLower
         \<or> includes_str userPhone searchLower
         \<or> includes_str industries searchLower
         \<or> includes_str roles searchLower
         \<or> includes_str locations searchLower)"

definition userMatchesPlan :: "string \<Rightarrow> User \<Rightarrow> bool" where
  "userMatchesPlan planFilter user =
     (let planName = toLowerCase (getSafePlanName_user user)
      in if planFilter = ''active'' then present (planNameOf user) \<and> present (planExpiresAtOf user)
         else if planFilter = ''none'' then \<not> present (planNameOf user)
         else includes_str planName (toLowerCase planFilter))"

definition userMatchesDate :: "clock \<Rightarrow> string \<Rightarrow> User \<Rightarrow> bool" where
  "userMatchesDate c dateFilter user =
     inDateBucket c dateFilter (parseDate c (getSafeCreatedAt_user c user))"

text \<open>The body of the filter effect, up to the two state setters.\<close>

definition filterUsers :: "clock \<Rightarrow> User list \<Rightarrow> string \<Rightarrow> string \<Rightarrow> string \<Rightarrow> User list" where
  "filterUsers c users searchTerm planFilter dateFilter =
     (let result = users;
          result = (if searchTerm \<noteq> [] then filter (userMatchesSearch (toLowerCase searchTerm)) result
                    else result);
          result = (if planFilter \<noteq> ''all'' then filter (userMatchesPlan planFilter) result
                    else result);
          result = (if dateFilter \<noteq> ''all'' then filter (userMatchesDate c dateFilter) result
                    else result)
      in result)"

section \<open>Assistants page: accessors and filters\<close>

definition getSafeAssistantName :: "Assistant \<Rightarrow> string" where
  "getSafeAssistantName asst =
     orDefault (Assistant.firstname asst) ''Unknown'' @ '' ''
       @ orDefault (Assistant.lastname asst) ''Assistant''"

definition getSafeEmail_assistant :: "Assistant \<Rightarrow> string" where
  "getSafeEmail_assistant asst = orDefault (Assistant.email asst) ''N/A''"

definition getSafeStatus_assistant :: "Assistant \<Rightarrow> string" where
  "getSafeStatus_assistant asst = orDefault (Assistant.status asst) ''offline''"

definition getClientCount :: "Assistant \<Rightarrow> nat" where
  "getClientCount asst = (case Assistant.clients asst of None \<Rightarrow> 0 | Some cs \<Rightarrow> length cs)"

definition getJobCount_assistant :: "Assistant \<Rightarrow> nat" where
  "getJobCount_assistant asst = (case Assistant.jobs asst of None \<Rightarrow> 0 | Some js \<Rightarrow> length js)"

definition getMessageCount :: "Assistant \<Rightarrow> nat" where
  "getMessageCount asst = (case Assistant.messages asst of None \<Rightarrow> 0 | Some ms \<Rightarrow> length ms)"

definition getSafeCreatedAt_assistant :: "clock \<Rightarrow> Assistant \<Rightarrow> string" where
  "getSafeCreatedAt_assistant c asst =
     orDefault (Assistant.createdAt asst) (toISOString c (now c))"

definition assistantMatchesSearch :: "string \<Rightarrow> Assistant \<Rightarrow> bool" where
  "assistantMatchesSearch searchLower asst =
     (let assistantName = toLowerCase (getSafeAssistantName asst);
          assistantEmail = toLowerCase (getSafeEmail_assistant asst)
      in includes_str assistantName searchLower \<or> includes_str assistantEmail searchLower)"

definition assistantMatchesStatus :: "string \<Rightarrow> Assistant \<Rightarrow> bool" where
  "assistantMatchesStatus statusFilter asst =
     (toLowerCase (getSafeStatus_assistant asst) = toLowerCase statusFilter)"

definition assistantMatchesDate :: "clock \<Rightarrow> string \<Rightarrow> Assistant \<Rightarrow> bool" where
  "assistantMatchesDate c dateFilter asst =
     inDateBucket c dateFilter (parseDate c (getSafeCreatedAt_assistant c asst))"

definition filterAssistants ::
  "clock \<Rightarrow> Assistant list \<Rightarrow> string \<Rightarrow> string \<Rightarrow> string \<Rightarrow> Assistant list" where
  "filterAssistants c assistants searchTerm statusFilter dateFilter =
     (let result = assistants;
          result = (if searchTerm \<noteq> []
                    then filter (assistantMatchesSearch (toLowerCase searchTerm)) result
                    else result);
          result = (if statusFilter \<noteq> ''all'' then filter (assistantMatchesStatus statusFilter) result
                    else result);
          result = (if dateFilter \<noteq> ''all'' then filter (assistantMatchesDate c dateFilter) result
                    else result)
      in result)"

section \<open>Payments page: accessors, filters and statistics\<close>

definition getSafeUserName_payment :: "Payment \<Rightarrow> string" where
  "getSafeUserName_payment payment =
     orDefault (Payment.userFirstName payment) ''Unknown'' @ '' ''
       @ orDefault (Payment.userLastName payment) ''User''"

definition getSafeEmail_payment :: "Payment \<Rightarrow> string" where
  "getSafeEmail_payment payment = orDefault (Payment.userEmail payment) ''N/A''"

definition getSafePhone_payment :: "Payment \<Rightarrow> string" where
  "getSafePhone_payment payment = orDefault (Payment.userPhone payment) ''N/A''"

definition getSafePlanName_payment :: "Payment \<Rightarrow> string" where
  "getSafePlanName_payment payment = orDefault (Payment.planName payment) ''Unknown Plan''"

text \<open>
  \<^verbatim>\<open>a || b\<close> on optional numbers: the left operand unless it is absent or zero.
  A number is the real value of a finite double.
\<close>

definition numOr :: "real option \<Rightarrow> real option \<Rightarrow> real option" where
  "numOr a b = (case a of None \<Rightarrow> b | Some x \<Rightarrow> if x = 0 then b else Some x)"

definition numOrZero :: "real option \<Rightarrow> real" where
  "numOrZero a = (case a of None \<Rightarrow> 0 | Some x \<Rightarrow> x)"

text \<open>\<^verbatim>\<open>payment.amount || payment.planPrice || 0\<close>.\<close>

definition getSafeAmount :: "Payment \<Rightarrow> real" where
  "getSafeAmount payment = numOrZero (numOr (Payment.amount payment) (Payment.planPrice payment))"

definition getSafeCurrency :: "Payment \<Rightarrow> string" where
  "getSafeCurrency payment = orDefault (Payment.currency payment) ''GBP''"

definition getSafeStatus_payment :: "Payment \<Rightarrow> string" where
  "getSafeStatus_payment payment = orDefault (Payment.status payment) ''pending''"

definition getSafeCreatedAt_payment :: "clock \<Rightarrow> Payment \<Rightarrow> string" where
  "getSafeCreatedAt_payment c payment =
     orDefault (Payment.createdAt payment) (toISOString c (now c))"

definition getTransactionId :: "Payment \<Rightarrow> string" where
  "getTransactionId payment =
     orDefault (Payment.stripeSessionId payment)
       (orDefault (Payment.stripePaymentIntentId payment) (Payment.ident payment))"

text \<open>
  \<^verbatim>\<open>formatCurrency\<close>: the amount and the currency it hands to the number
  formatter of the browser (\<^verbatim>\<open>Intl.NumberFormat\<close>), which is a parameter.
\<close>

definition formatCurrency ::
  "(real \<Rightarrow> string \<Rightarrow> string) \<Rightarrow> real option \<Rightarrow> string option \<Rightarrow> string" where
  "formatCurrency numberFormat amount' currency' =
     (let safeAmount = numOrZero amount';
          safeCurrency = orDefault currency' ''GBP''
      in numberFormat safeAmount safeCurrency)"

text \<open>The amount cell of a payment row, in the table, the cards and the detail view.\<close>

definition amountCell :: "(real \<Rightarrow> string \<Rightarrow> string) \<Rightarrow> Payment \<Rightarrow> string" where
  "amountCell numberFormat payment =
     formatCurrency numberFormat (Some (getSafeAmount payment)) (Some (getSafeCurrency payment))"

definition paymentMatchesSearch :: "string \<Rightarrow> Payment \<Rightarrow> bool" where
  "paymentMatchesSearch searchLower payment =
     (let userName = toLowerCase (getSafeUserName_payment payment);
          userEmail = toLowerCase (getSafeEmail_payment payment);
          userPhone = toLowerCase (getSafePhone_payment payment);
          planName = toLowerCase (getSafePlanName_payment payment);
          transactionId = toLowerCase (getTransactionId payment)
      in includes_str userName searchLower
         \<or> includes_str userEmail searchLower
         \<or> includes_str userPhone searchLower
         \<or> includes_str planName searchLower
         \<or> includes_str transactionId searchLower)"

definition paymentMatchesDate :: "clock \<Rightarrow> string \<Rightarrow> Payment \<Rightarrow> bool" where
  "paymentMatchesDate c dateFilter payment =
     inDateBucket c dateFilter (parseDate c (getSafeCreatedAt_payment c payment))"

definition filterPayments ::
  "clock \<Rightarrow> Payment list \<Rightarrow> string \<Rightarrow> string \<Rightarrow> string \<Rightarrow> Payment list" where
  "filterPayments c payments searchTerm statusFilter dateFilter =
     (let result = payments;
          result = (if searchTerm \<noteq> []
                    then filter (paymentMatchesSearch (toLowerCase searchTerm)) result
                    else result);
          result = (if statusFilter \<noteq> ''all''
                    then filter (\<lambda>payment. getSafeStatus_payment payment = statusFilter) result
                    else result);
          result = (if dateFilter \<noteq> ''all'' then filter (paymentMatchesDate c dateFilter) result
                    else result)
      in result)"

text \<open>
  \<^verbatim>\<open>calculateStats\<close> of the Payments page, over the unfiltered collection. The
  amounts are JavaScript numbers, and \<^verbatim>\<open>sum + getSafeAmount(p)\<close> is the addition
  of IEEE 754 doubles, which rounds and is not associative. That addition is the
  parameter \<open>add\<close>, about which nothing is assumed; the \<^verbatim>\<open>reduce\<close> applies it
  from the left, starting from 0, in the order of the collection.
\<close>

record PaymentStats =
  total :: nat
  pending :: nat
  processing :: nat
  completed :: nat
  failed :: nat
  canceled :: nat
  totalAmount :: real

definition countStatus :: "Payment list \<Rightarrow> string \<Rightarrow> nat" where
  "countStatus payments st = length (filter (\<lambda>p. getSafeStatus_payment p = st) payments)"

definition calculateStats :: "(real \<Rightarrow> real \<Rightarrow> real) \<Rightarrow> Payment list \<Rightarrow> PaymentStats" where
  "calculateStats add payments =
     \<lparr> total = length payments,
       pending = countStatus payments ''pending'',
       processing = countStatus payments ''processing'',
       completed = countStatus payments ''completed'',
       failed = countStatus payments ''failed'',
       canceled = countStatus payments ''canceled'',
       totalAmount =
         foldl (\<lambda>sum p. add sum (getSafeAmount p)) 0
           (filter (\<lambda>p. getSafeStatus_payment p = ''completed'') payments) \<rparr>"

section \<open>Pages: state, requests and notifications\<close>

text \<open>
  What a handler does to the outside is recorded, in order, in the \<open>effects\<close> of the
  page: the toasts it shows, the navigation it asks for, the confirmation dialog it
  opens and the requests it sends. The endpoints are the constants of the pages.
\<close>

datatype endpoint =
    ADMINS_ENDPOINT
  | DELETE_ADMIN_ENDPOINT
  | USERS_ENDPOINT
  | ASSISTANTS_ENDPOINT
  | PAYMENTS_ENDPOINT
  | VERIFY_PAYMENT_ENDPOINT

datatype effect =
    ToastError string
  | ToastSuccess string
  | Navigate string
  | ConfirmDialog string
  | HttpGet endpoint
  | HttpPost endpoint "(string \<times> string) list"

text \<open>
  An awaited promise either resolves with a value or rejects. Of a rejection the
  handlers read the HTTP status (\<^verbatim>\<open>err.response?.status\<close>) and the message of the
  server (\<^verbatim>\<open>error.response?.data?.message\<close>); both are absent when there was no
  response.
\<close>

datatype 'a outcome = Resolved 'a | Rejected "nat option" "string option"

text \<open>
  What the browser holds outside the page: the persisted key-value store
  (\<^verbatim>\<open>localforage.getItem\<close>) and the answer the user gives to a
  \<^verbatim>\<open>window.confirm\<close> dialog.
\<close>

record Browser =
  getItem :: "string \<Rightarrow> string option outcome"
  confirmAnswer :: "string \<Rightarrow> bool"

text \<open>The state every page declares; each page extends it with its own.\<close>

record Page =
  loading :: bool
  searchTerm :: string
  effects :: "effect list"

definition emit :: "effect \<Rightarrow> 'a Page_scheme \<Rightarrow> 'a Page_scheme" where
  "emit e s = s\<lparr>effects := effects s @ [e]\<rparr>"

text \<open>The requests among the recorded effects.\<close>

fun isRequest :: "effect \<Rightarrow> bool" where
  "isRequest (HttpGet ep) = True"
| "isRequest (HttpPost ep body) = True"
| "isRequest _ = False"

definition requests :: "'a Page_scheme \<Rightarrow> effect list" where
  "requests s = filter isRequest (effects s)"

section \<open>Admins page\<close>

record AdminsPage = Page +
  admins :: "Admin list"
  deletingId :: "string option"

definition fetchAdmins :: "Admin jsval outcome \<Rightarrow> AdminsPage \<Rightarrow> AdminsPage" where
  "fetchAdmins response s0 =
     (let s = s0\<lparr>loading := True\<rparr>;
          s = emit (HttpGet ADMINS_ENDPOINT) s;
          s = (case response of
                 Resolved data \<Rightarrow>
                   (let adminList = extractAdminsFromResponse data;
                        s = s\<lparr>admins := adminList\<rparr>
                    in if length adminList = 0 then emit (ToastError ''No admins found'') s else s)
               | Rejected code msg \<Rightarrow>
                   (let s = emit (ToastError ''Failed to load admin data.'') s;
                        s = (if code = Some 401 then emit (Navigate ''/login'') s else s)
                    in s\<lparr>admins := []\<rparr>))
      in s\<lparr>loading := False\<rparr>)"

text \<open>
  \<^verbatim>\<open>handleDeleteAdmin\<close>. \<open>response\<close> is the outcome of the delete request, read
  only if the request is sent. A rejected read of the store has no server message,
  so the \<^verbatim>\<open>catch\<close> shows its default text.
\<close>

definition handleDeleteAdmin ::
  "Browser \<Rightarrow> string \<Rightarrow> string \<Rightarrow> unit outcome \<Rightarrow> AdminsPage \<Rightarrow> AdminsPage" where
  "handleDeleteAdmin b adminId adminName response s0 =
     (let question = ''Are you sure you want to delete '' @ adminName @ ''?'';
          s = emit (ConfirmDialog question) s0
      in if \<not> confirmAnswer b question then s
         else
           (let s = s\<lparr>deletingId := Some adminId\<rparr>;
                s = (case getItem b ''authToken'' of
                       Rejected code msg \<Rightarrow> emit (ToastError ''Failed to delete admin'') s
                     | Resolved token \<Rightarrow>
                         if \<not> present token then emit (ToastError ''Authentication required'') s
                         else
                           (let s = emit (HttpPost DELETE_ADMIN_ENDPOINT [(''id'', adminId)]) s
                            in case response of
                                 Resolved u \<Rightarrow>
                                   (let s = emit (ToastSuccess ''Admin deleted successfully'') s
                                    in s\<lparr>admins := filter (\<lambda>admin. Admin.ident admin \<noteq> adminId) (admins s)\<rparr>)
                               | Rejected code msg \<Rightarrow>
                                   emit (ToastError (orDefault msg ''Failed to delete admin'')) s))
            in s\<lparr>deletingId := None\<rparr>))"

text \<open>The rows of \<^verbatim>\<open>DesktopView\<close> and the cards of \<^verbatim>\<open>MobileView\<close>: every filtered admin.\<close>

definition adminRows :: "AdminsPage \<Rightarrow> js_error + Admin list" where
  "adminRows s = filteredAdmins (admins s) (searchTerm s)"

section \<open>Users page\<close>

record UsersPage = Page +
  users :: "User list"
  filteredUsers :: "User list"
  planFilter :: string
  dateFilter :: string
  selectedUser :: "User option"
  currentPage :: int

text \<open>
  \<^verbatim>\<open>fetchUsers\<close>. \<^verbatim>\<open>userList.reverse()\<close> reverses the array in place and returns
  the same array, so \<^verbatim>\<open>setUsers\<close>, \<^verbatim>\<open>setFilteredUsers\<close> and the length test all
  see the reversed list.
\<close>

definition fetchUsers :: "User jsval outcome \<Rightarrow> UsersPage \<Rightarrow> UsersPage" where
  "fetchUsers response s0 =
     (let s = s0\<lparr>loading := True\<rparr>;
          s = emit (HttpGet USERS_ENDPOINT) s;
          s = (case response of
                 Resolved data \<Rightarrow>
                   (let userList = extractUsersFromResponse data;
                        userList = rev userList;
                        s = s\<lparr>users := userList\<rparr>;
                        s = s\<lparr>filteredUsers := userList\<rparr>
                    in if length userList = 0 then emit (ToastError ''No users found'') s else s)
               | Rejected code msg \<Rightarrow>
                   (let s = emit (ToastError ''Failed to load user data.'') s;
                        s = (if code = Some 401
                             then emit (ToastError ''Access denied. Please check permissions.'') s
                             else if code = Some 403
                             then emit (ToastError ''Forbidden access to users data.'') s
                             else if code = Some 404
                             then emit (ToastError ''Users endpoint not found.'') s
                             else if code = Some 500
                             then emit (ToastError ''Server error. Please try again later.'') s
                             else s);
                        s = s\<lparr>users := []\<rparr>
                    in s\<lparr>filteredUsers := []\<rparr>))
      in s\<lparr>loading := False\<rparr>)"

text \<open>
  The filter effect: React runs it after a render in which \<^verbatim>\<open>users\<close>,
  \<^verbatim>\<open>searchTerm\<close>, \<^verbatim>\<open>planFilter\<close> or \<^verbatim>\<open>dateFilter\<close> has changed.
\<close>

definition usersFilterEffect :: "clock \<Rightarrow> UsersPage \<Rightarrow> UsersPage" where
  "usersFilterEffect c s =
     (let result = filterUsers c (users s) (searchTerm s) (planFilter s) (UsersPage.dateFilter s);
          s = s\<lparr>filteredUsers := result\<rparr>
      in s\<lparr>UsersPage.currentPage := 1\<rparr>)"

text \<open>
  The three filter inputs: the state setter, then the effect if the value is a new
  one (React skips the render, and with it the effect, when the state is set to
  the value it already has).
\<close>

definition setSearchTerm_users :: "clock \<Rightarrow> string \<Rightarrow> UsersPage \<Rightarrow> UsersPage" where
  "setSearchTerm_users c v s =
     (if v = searchTerm s then s else usersFilterEffect c (s\<lparr>searchTerm := v\<rparr>))"

definition setPlanFilter :: "clock \<Rightarrow> string \<Rightarrow> UsersPage \<Rightarrow> UsersPage" where
  "setPlanFilter c v s =
     (if v = planFilter s then s else usersFilterEffect c (s\<lparr>planFilter := v\<rparr>))"

definition setDateFilter_users :: "clock \<Rightarrow> string \<Rightarrow> UsersPage \<Rightarrow> UsersPage" where
  "setDateFilter_users c v s =
     (if v = UsersPage.dateFilter s then s else usersFilterEffect c (s\<lparr>UsersPage.dateFilter := v\<rparr>))"

text \<open>A fetch followed by the render it causes: the new array always re-runs the effect.\<close>

definition loadUsers :: "clock \<Rightarrow> User jsval outcome \<Rightarrow> UsersPage \<Rightarrow> UsersPage" where
  "loadUsers c response s = usersFilterEffect c (fetchUsers response s)"

text \<open>\<^verbatim>\<open>DesktopView\<close>: the rows of the table, and the two pagination buttons.\<close>

definition currentUsers :: "UsersPage \<Rightarrow> User list" where
  "currentUsers s =
     (let indexOfLastItem = UsersPage.currentPage s * itemsPerPage;
          indexOfFirstItem = indexOfLastItem - itemsPerPage
      in slice (filteredUsers s) indexOfFirstItem indexOfLastItem)"

definition totalPages_users :: "UsersPage \<Rightarrow> int" where
  "totalPages_users s = \<lceil>real (length (filteredUsers s)) / real_of_int itemsPerPage\<rceil>"

definition previousPage_users :: "UsersPage \<Rightarrow> UsersPage" where
  "previousPage_users s = s\<lparr>UsersPage.currentPage := max (UsersPage.currentPage s - 1) 1\<rparr>"

definition nextPage_users :: "UsersPage \<Rightarrow> UsersPage" where
  "nextPage_users s =
     s\<lparr>UsersPage.currentPage := min (UsersPage.currentPage s + 1) (totalPages_users s)\<rparr>"

text \<open>\<^verbatim>\<open>MobileView\<close>: the cards shown, and the load-more button.\<close>

definition mobileUsers :: "UsersPage \<Rightarrow> User list" where
  "mobileUsers s = slice (filteredUsers s) 0 (itemsPerPage * UsersPage.currentPage s)"

definition loadMore_users :: "UsersPage \<Rightarrow> UsersPage" where
  "loadMore_users s = s\<lparr>UsersPage.currentPage := UsersPage.currentPage s + 1\<rparr>"

section \<open>Assistants page\<close>

record AssistantsPage = Page +
  assistants :: "Assistant list"
  filteredAssistants :: "Assistant list"
  statusFilter :: string
  dateFilter :: string
  selectedAssistant :: "Assistant option"
  currentPage :: int

definition fetchAssistants :: "Assistant jsval outcome \<Rightarrow> AssistantsPage \<Rightarrow> AssistantsPage" where
  "fetchAssistants response s0 =
     (let s = s0\<lparr>loading := True\<rparr>;
          s = emit (HttpGet ASSISTANTS_ENDPOINT) s;
          s = (case response of
                 Resolved data \<Rightarrow>
                   (let assistantList = extractAssistantsFromResponse data;
                        assistantList = rev assistantList;
                        s = s\<lparr>assistants := assistantList\<rparr>;
                        s = s\<lparr>filteredAssistants := assistantList\<rparr>
                    in if length assistantList = 0 then emit (ToastError ''No assistants found'') s
                       else s)
               | Rejected code msg \<Rightarrow>
                   (let s = (if code = Some 401
                             then emit (ToastError ''Access denied. Please check permissions.'') s
                             else if code = Some 403
                             then emit (ToastError ''Forbidden access to assistants data.'') s
                             else if code = Some 404
                             then emit (ToastError ''Assistants endpoint not found.'') s
                             else if code = Some 500
                             then emit (ToastError ''Server error. Please try again later.'') s
                             else emit (ToastError ''Failed to load assistants data.'') s);
                        s = s\<lparr>assistants := []\<rparr>
                    in s\<lparr>filteredAssistants := []\<rparr>))
      in s\<lparr>loading := False\<rparr>)"

definition assistantsFilterEffect :: "clock \<Rightarrow> AssistantsPage \<Rightarrow> AssistantsPage" where
  "assistantsFilterEffect c s =
     (let result = filterAssistants c (assistants s) (searchTerm s)
                     (AssistantsPage.statusFilter s) (AssistantsPage.dateFilter s);
          s = s\<lparr>filteredAssistants := result\<rparr>
      in s\<lparr>AssistantsPage.currentPage := 1\<rparr>)"

definition setSearchTerm_assistants :: "clock \<Rightarrow> string \<Rightarrow> AssistantsPage \<Rightarrow> AssistantsPage" where
  "setSearchTerm_assistants c v s =
     (if v = searchTerm s then s else assistantsFilterEffect c (s\<lparr>searchTerm := v\<rparr>))"

definition setStatusFilter_assistants :: "clock \<Rightarrow> string \<Rightarrow> AssistantsPage \<Rightarrow> AssistantsPage" where
  "setStatusFilter_assistants c v s =
     (if v = AssistantsPage.statusFilter s then s
      else assistantsFilterEffect c (s\<lparr>AssistantsPage.statusFilter := v\<rparr>))"

definition setDateFilter_assistants :: "clock \<Rightarrow> string \<Rightarrow> AssistantsPage \<Rightarrow> AssistantsPage" where
  "setDateFilter_assistants c v s =
     (if v = AssistantsPage.dateFilter s then s
      else assistantsFilterEffect c (s\<lparr>AssistantsPage.dateFilter := v\<rparr>))"

definition loadAssistants :: "clock \<Rightarrow> Assistant jsval outcome \<Rightarrow> AssistantsPage \<Rightarrow> AssistantsPage" where
  "loadAssistants c response s = assistantsFilterEffect c (fetchAssistants response s)"

definition currentAssistants :: "AssistantsPage \<Rightarrow> Assistant list" where
  "currentAssistants s =
     (let indexOfLastItem = AssistantsPage.currentPage s * itemsPerPage;
          indexOfFirstItem = indexOfLastItem - itemsPerPage
      in slice (filteredAssistants s) indexOfFirstItem indexOfLastItem)"

definition totalPages_assistants :: "AssistantsPage \<Rightarrow> int" where
  "totalPages_assistants s = \<lceil>real (length (filteredAssistants s)) / real_of_int itemsPerPage\<rceil>"

definition previousPage_assistants :: "AssistantsPage \<Rightarrow> AssistantsPage" where
  "previousPage_assistants s =
     s\<lparr>AssistantsPage.currentPage := max (AssistantsPage.currentPage s - 1) 1\<rparr>"

definition nextPage_assistants :: "AssistantsPage \<Rightarrow> AssistantsPage" where
  "nextPage_assistants s =
     s\<lparr>AssistantsPage.currentPage :=
         min (AssistantsPage.currentPage s + 1) (totalPages_assistants s)\<rparr>"

definition mobileAssistants :: "AssistantsPage \<Rightarrow> Assistant list" where
  "mobileAssistants s =
     slice (filteredAssistants s) 0 (itemsPerPage * AssistantsPage.currentPage s)"

definition loadMore_assistants :: "AssistantsPage \<Rightarrow> AssistantsPage" where
  "loadMore_assistants s = s\<lparr>AssistantsPage.currentPage := AssistantsPage.currentPage s + 1\<rparr>"

section \<open>Payments page\<close>

text \<open>The Payments page declares no page number: both of its views map every filtered payment.\<close>

record PaymentsPage = Page +
  payments :: "Payment list"
  filteredPayments :: "Payment list"
  verifyingId :: "string option"
  statusFilter :: string
  dateFilter :: string
  selectedPayment :: "Payment option"
  verificationNotes :: string

definition fetchPayments :: "Payment jsval outcome \<Rightarrow> PaymentsPage \<Rightarrow> PaymentsPage" where
  "fetchPayments response s0 =
     (let s = s0\<lparr>loading := True\<rparr>;
          s = emit (HttpGet PAYMENTS_ENDPOINT) s;
          s = (case response of
                 Resolved data \<Rightarrow>
                   (let paymentList = extractPaymentsFromResponse data;
                        paymentList = rev paymentList;
                        s = s\<lparr>payments := paymentList\<rparr>;
                        s = s\<lparr>filteredPayments := paymentList\<rparr>
                    in if length paymentList = 0 then emit (ToastError ''No payments found'') s
                       else s)
               | Rejected code msg \<Rightarrow>
                   (let s = emit (ToastError ''Failed to load payment data.'') s;
                        s = (if code = Some 401 then emit (Navigate ''/'') s else s);
                        s = s\<lparr>payments := []\<rparr>
                    in s\<lparr>filteredPayments := []\<rparr>))
      in s\<lparr>loading := False\<rparr>)"

definition paymentsFilterEffect :: "clock \<Rightarrow> PaymentsPage \<Rightarrow> PaymentsPage" where
  "paymentsFilterEffect c s =
     (let result = filterPayments c (payments s) (searchTerm s)
                     (PaymentsPage.statusFilter s) (PaymentsPage.dateFilter s)
      in s\<lparr>filteredPayments := result\<rparr>)"

definition setSearchTerm_payments :: "clock \<Rightarrow> string \<Rightarrow> PaymentsPage \<Rightarrow> PaymentsPage" where
  "setSearchTerm_payments c v s =
     (if v = searchTerm s then s else paymentsFilterEffect c (s\<lparr>searchTerm := v\<rparr>))"

definition setStatusFilter_payments :: "clock \<Rightarrow> string \<Rightarrow> PaymentsPage \<Rightarrow> PaymentsPage" where
  "setStatusFilter_payments c v s =
     (if v = PaymentsPage.statusFilter s then s
      else paymentsFilterEffect c (s\<lparr>PaymentsPage.statusFilter := v\<rparr>))"

definition setDateFilter_payments :: "clock \<Rightarrow> string \<Rightarrow> PaymentsPage \<Rightarrow> PaymentsPage" where
  "setDateFilter_payments c v s =
     (if v = PaymentsPage.dateFilter s then s
      else paymentsFilterEffect c (s\<lparr>PaymentsPage.dateFilter := v\<rparr>))"

definition loadPayments :: "clock \<Rightarrow> Payment jsval outcome \<Rightarrow> PaymentsPage \<Rightarrow> PaymentsPage" where
  "loadPayments c response s = paymentsFilterEffect c (fetchPayments response s)"

text \<open>The rows of \<^verbatim>\<open>DesktopView\<close> and the cards of \<^verbatim>\<open>MobileView\<close>.\<close>

definition paymentRows :: "PaymentsPage \<Rightarrow> Payment list" where
  "paymentRows s = filteredPayments s"

text \<open>
  \<^verbatim>\<open>handleVerifyPayment\<close>. The second argument is \<^verbatim>\<open>"completed"\<close> (approve) or
  \<^verbatim>\<open>"failed"\<close> (reject). \<open>response\<close> is the outcome of the verify request, whose
  body carries \<^verbatim>\<open>success\<close> and \<^verbatim>\<open>message\<close>; \<open>refetch\<close> is the outcome of the
  \<^verbatim>\<open>fetchPayments()\<close> that a success starts. That call is not awaited: it sets
  \<^verbatim>\<open>loading\<close> and sends its request at once and stores the payments when the
  response arrives, after the handler has finished. It sets no state variable that
  the rest of the handler sets, and the rest of the handler shows and sends
  nothing, so the page it leaves is the one computed here, where the fetch runs to
  its end at the place of the call. The handler has the browser in scope and reads
  nothing from it.
\<close>

datatype verdict = Completed | Failed

fun verdictString :: "verdict \<Rightarrow> string" where
  "verdictString Completed = ''completed''"
| "verdictString Failed = ''failed''"

record VerifyReply =
  success :: bool
  message :: "string option"

definition handleVerifyPayment ::
  "Browser \<Rightarrow> string \<Rightarrow> verdict \<Rightarrow> VerifyReply outcome \<Rightarrow> Payment jsval outcome
     \<Rightarrow> PaymentsPage \<Rightarrow> PaymentsPage" where
  "handleVerifyPayment b paymentId verdict response refetch s0 =
     (if trim (verificationNotes s0) = [] \<and> verdict = Failed
      then emit (ToastError ''Please provide a reason for rejection'') s0
      else
        (let s = s0\<lparr>verifyingId := Some paymentId\<rparr>;
             verifyData = [(''paymentId'', paymentId), (''status'', verdictString verdict)];
             s = emit (HttpPost VERIFY_PAYMENT_ENDPOINT verifyData) s;
             s = (case response of
                    Resolved data \<Rightarrow>
                      if success data then
                        (let s = emit (ToastSuccess
                                   (''Payment ''
                                    @ (if verdict = Completed then ''verified'' else ''rejected'')
                                    @ '' successfully'')) s;
                             s = fetchPayments refetch s;
                             s = s\<lparr>selectedPayment := None\<rparr>
                         in s\<lparr>verificationNotes := []\<rparr>)
                      else emit (ToastError (orDefault (message data) ''Verification failed'')) s
                  | Rejected code msg \<Rightarrow>
                      emit (ToastError (orDefault msg ''Failed to verify payment'')) s)
         in s\<lparr>verifyingId := None\<rparr>))"

section \<open>Initial states and sample documents\<close>

text \<open>The initial values of the \<^verbatim>\<open>useState\<close> declarations of each page.\<close>

definition initialAdminsPage :: AdminsPage where
  "initialAdminsPage =
     \<lparr> loading = True, searchTerm = [], effects = [], admins = [], deletingId = None \<rparr>"

definition initialUsersPage :: UsersPage where
  "initialUsersPage =
     \<lparr> loading = True, searchTerm = [], effects = [], users = [], filteredUsers = [],
       planFilter = ''all'', UsersPage.dateFilter = ''all'', selectedUser = None,
       UsersPage.currentPage = 1 \<rparr>"

definition initialAssistantsPage :: AssistantsPage where
  "initialAssistantsPage =
     \<lparr> loading = True, searchTerm = [], effects = [], assistants = [], filteredAssistants = [],
       AssistantsPage.statusFilter = ''all'', AssistantsPage.dateFilter = ''all'',
       selectedAssistant = None, AssistantsPage.currentPage = 1 \<rparr>"

definition initialPaymentsPage :: PaymentsPage where
  "initialPaymentsPage =
     \<lparr> loading = True, searchTerm = [], effects = [], payments = [], filteredPayments = [],
       verifyingId = None, PaymentsPage.statusFilter = ''all'', PaymentsPage.dateFilter = ''all'',
       selectedPayment = None, verificationNotes = [] \<rparr>"

text \<open>Documents that carry their identifier and nothing else.\<close>

definition bareAdmin :: "string \<Rightarrow> Admin" where
  "bareAdmin i =
     \<lparr> Admin.ident = i, Admin.firstname = Absent, Admin.lastname = Absent,
       Admin.email = Absent, Admin.phonenumber = Absent, Admin.role = Absent,
       Admin.createdAt = Absent, Admin.updatedAt = Absent \<rparr>"

definition bareUser :: "string \<Rightarrow> User" where
  "bareUser i =
     \<lparr> User.ident = i, User.firstname = None, User.lastname = None, User.email = None,
       User.phonenumber = None, User.jobEmail = None, User.jobPassword = None, User.cv = None,
       User.preferredIndustries = None, User.preferredRoles = None,
       User.preferredLocations = None, User.plan = None, User.assistant = None,
       User.jobs = None, User.createdAt = None, User.updatedAt = None \<rparr>"


definition barePayment :: "string \<Rightarrow> Payment" where
  "barePayment i =
     \<lparr> Payment.ident = i, Payment.userId = None, Payment.userFirstName = None,
       Payment.userLastName = None, Payment.userEmail = None, Payment.userPhone = None,
       Payment.planName = None, Payment.planPrice = None, Payment.planDuration = None,
       Payment.amount = None, Payment.currency = None, Payment.status = None,
       Payment.paymentMethod = None, Payment.stripeSessionId = None,
       Payment.stripePaymentIntentId = None, Payment.createdAt = None,
       Payment.completedAt = None, Payment.updatedAt = None \<rparr>"

text \<open>
  A browser whose store holds the given token (or none) and whose user confirms
  every dialog. A clock at a given instant, in a zone whose offset from UTC never
  changes, that parses only the one timestamp it is given. A clock in a zone
  whose offset changes once, at the instant \<open>change\<close>, from \<open>before\<close> to \<open>after\<close>:
  a reading of the local clock that the change skips or repeats is converted with
  the offset before the change, as ECMAScript prescribes.
\<close>

definition browserWith :: "string option \<Rightarrow> Browser" where
  "browserWith token =
     \<lparr> getItem = (\<lambda>k. Resolved (if k = ''authToken'' then token else None)),
       confirmAnswer = (\<lambda>q. True) \<rparr>"

definition clockAt :: "int \<Rightarrow> int \<Rightarrow> string \<Rightarrow> int \<Rightarrow> clock" where
  "clockAt t off stamp v =
     \<lparr> now = t, localTime = (\<lambda>i. i + off), utc = (\<lambda>x. x - off),
       parseDate = (\<lambda>s. if s = stamp then Some v else None),
       toISOString = (\<lambda>i. ''now'') \<rparr>"


section \<open>The normalization order of the specification\<close>

text \<open>
  The algorithm of the specification, in its words: the candidates are tried in
  order, the first that is a sequence is returned as it is, and if none is a
  sequence the result is the empty sequence.
\<close>

fun firstSequence :: "'r jsval list \<Rightarrow> 'r list" where
  "firstSequence [] = []"
| "firstSequence (JArr xs # vs) = xs"
| "firstSequence (v # vs) = firstSequence vs"

section \<open>Properties of the response normalizers\<close>

lemma firstSequence_Cons:
  "firstSequence (v # vs) = (if isArray v then elements v else firstSequence vs)"
  by (cases v) simp_all

lemma getProp_falsy: "\<not> truthy d \<Longrightarrow> getProp d k = JUndefined"
  by (cases d) simp_all

lemma extractAdmins_firstSequence:
  "extractAdminsFromResponse r =
     firstSequence [r, getProp r ''admins'', getProp r ''users'', getProp r ''data'',
                    getProp (getProp r ''data'') ''admins'']"
proof (cases "truthy (getProp r ''data'')")
  case True
  then show ?thesis
    by (simp only: extractAdminsFromResponse_def firstSequence_Cons firstSequence.simps(1) simp_thms)
next
  case False
  then have "\<not> isArray (getProp (getProp r ''data'') ''admins'')"
    by (simp add: getProp_falsy)
  with False show ?thesis
    by (simp only: extractAdminsFromResponse_def firstSequence_Cons firstSequence.simps(1)
          simp_thms if_False)
qed

lemma extractPayments_firstSequence:
  "extractPaymentsFromResponse r = firstSequence [r, getProp r ''payments'', getProp r ''data'']"
  by (simp only: extractPaymentsFromResponse_def firstSequence_Cons firstSequence.simps(1))

lemma extractUsers_firstSequence:
  "extractUsersFromResponse r = firstSequence [getProp r ''data'']"
  by (simp only: extractUsersFromResponse_def firstSequence_Cons firstSequence.simps(1))

lemma extractAssistants_firstSequence:
  "extractAssistantsFromResponse r = firstSequence [getProp r ''data'']"
  by (simp only: extractAssistantsFromResponse_def firstSequence_Cons firstSequence.simps(1))

text \<open>
  Claim C1 says that the normalizer of every record kind accepts all four envelope
  shapes. The Users normalizer does not accept a bare sequence, and the Payments
  normalizer does not accept a sequence nested in the payload object: both return
  the empty sequence there.
\<close>

theorem normalizers_counterexample:
  "extractUsersFromResponse (JArr [bareUser ''u1'', bareUser ''u2''])
     \<noteq> [bareUser ''u1'', bareUser ''u2'']
   \<and> extractPaymentsFromResponse
        (JObj [(''data'', JObj [(''payments'', JArr [barePayment ''p1''])])])
     \<noteq> [barePayment ''p1'']"
  by (simp add: extractUsersFromResponse_def extractPaymentsFromResponse_def)

text \<open>
  Claim C1, as the code has it. Each normalizer tries its own candidates in a fixed
  order and returns the first that is a sequence, unchanged and in order, and the
  empty sequence when none is. The candidates of the Admins page are the response
  itself, its \<^verbatim>\<open>admins\<close>, \<^verbatim>\<open>users\<close> and \<^verbatim>\<open>data\<close> properties and the
  \<^verbatim>\<open>admins\<close> property of its \<^verbatim>\<open>data\<close>; those of the Payments page are the
  response itself and its \<^verbatim>\<open>payments\<close> and \<^verbatim>\<open>data\<close> properties; the Users
  and Assistants pages try the \<^verbatim>\<open>data\<close> property only. In particular the
  Admins normalizer returns the records of each of the four envelope shapes. The
  normalizers are total: no response makes one throw.
\<close>

theorem normalizers_first_sequence:
  "extractAdminsFromResponse r =
     firstSequence [r, getProp r ''admins'', getProp r ''users'', getProp r ''data'',
                    getProp (getProp r ''data'') ''admins'']
   \<and> extractPaymentsFromResponse p =
       firstSequence [p, getProp p ''payments'', getProp p ''data'']
   \<and> extractUsersFromResponse u = firstSequence [getProp u ''data'']
   \<and> extractAssistantsFromResponse a = firstSequence [getProp a ''data'']
   \<and> extractAdminsFromResponse (JArr rs) = rs
   \<and> extractAdminsFromResponse (JObj [(''admins'', JArr rs)]) = rs
   \<and> extractAdminsFromResponse (JObj [(''data'', JArr rs)]) = rs
   \<and> extractAdminsFromResponse (JObj [(''data'', JObj [(''admins'', JArr rs)])]) = rs"
proof -
  have shapes: "extractAdminsFromResponse (JArr rs) = rs
     \<and> extractAdminsFromResponse (JObj [(''admins'', JArr rs)]) = rs
     \<and> extractAdminsFromResponse (JObj [(''data'', JArr rs)]) = rs
     \<and> extractAdminsFromResponse (JObj [(''data'', JObj [(''admins'', JArr rs)])]) = rs"
    by (simp add: extractAdminsFromResponse_def)
  show ?thesis
    using shapes extractAdmins_firstSequence [of r] extractPayments_firstSequence [of p]
      extractUsers_firstSequence [of u] extractAssistants_firstSequence [of a]
    by blast
qed

theorem normalizers_first_sequence_witness:
  "extractAdminsFromResponse
     (JObj [(''success'', JBool True),
            (''data'', JObj [(''admins'', JArr [bareAdmin ''a1'', bareAdmin ''a2''])])])
     = [bareAdmin ''a1'', bareAdmin ''a2'']
   \<and> extractPaymentsFromResponse
       (JObj [(''success'', JBool True), (''payments'', JArr [barePayment ''p1'', barePayment ''p2''])])
     = [barePayment ''p1'', barePayment ''p2'']
   \<and> extractUsersFromResponse
       (JObj [(''success'', JBool True), (''data'', JArr [bareUser ''u1'', bareUser ''u2''])])
     = [bareUser ''u1'', bareUser ''u2'']
   \<and> extractAssistantsFromResponse (JStr ''unavailable'') = ([] :: Assistant list)"
  using normalizers_first_sequence
    [of "JObj [(''success'', JBool True),
               (''data'', JObj [(''admins'', JArr [bareAdmin ''a1'', bareAdmin ''a2''])])]"
        "JObj [(''success'', JBool True), (''payments'', JArr [barePayment ''p1'', barePayment ''p2''])]"
        "JObj [(''success'', JBool True), (''data'', JArr [bareUser ''u1'', bareUser ''u2''])]"
        "JStr ''unavailable'' :: Assistant jsval" "[] :: Admin list"]
  by simp

section \<open>Properties of the fetches\<close>

lemma effects_emit: "effects (emit e s) = effects s @ [e]"
  by (simp add: emit_def)

lemma requests_emit: "requests (emit e s) = requests s @ (if isRequest e then [e] else [])"
  by (simp add: requests_def emit_def)

lemma fetchUsers_resolved:
  "users (fetchUsers (Resolved d) s) = rev (extractUsersFromResponse d)
   \<and> filteredUsers (fetchUsers (Resolved d) s) = rev (extractUsersFromResponse d)"
  by (simp add: fetchUsers_def emit_def Let_def)

lemma fetchAssistants_resolved:
  "assistants (fetchAssistants (Resolved d) s) = rev (extractAssistantsFromResponse d)
   \<and> filteredAssistants (fetchAssistants (Resolved d) s) = rev (extractAssistantsFromResponse d)"
  by (simp add: fetchAssistants_def emit_def Let_def)

lemma fetchPayments_resolved:
  "payments (fetchPayments (Resolved d) s) = rev (extractPaymentsFromResponse d)
   \<and> filteredPayments (fetchPayments (Resolved d) s) = rev (extractPaymentsFromResponse d)"
  by (simp add: fetchPayments_def emit_def Let_def)

lemma fetchAdmins_resolved:
  "admins (fetchAdmins (Resolved d) s) = extractAdminsFromResponse d"
  by (simp add: fetchAdmins_def emit_def Let_def)

lemma subseq_filterUsers: "subseq (filterUsers c us t pf df) us"
  by (auto simp: filterUsers_def Let_def intro: subseq_order.trans subseq_filter_left)

lemma subseq_filterAssistants: "subseq (filterAssistants c us t pf df) us"
  by (auto simp: filterAssistants_def Let_def intro: subseq_order.trans subseq_filter_left)

lemma subseq_filterPayments: "subseq (filterPayments c us t pf df) us"
  by (auto simp: filterPayments_def Let_def intro: subseq_order.trans subseq_filter_left)

lemma usersFilterEffect_fields:
  "users (usersFilterEffect c s) = users s
   \<and> filteredUsers (usersFilterEffect c s)
       = filterUsers c (users s) (searchTerm s) (planFilter s) (UsersPage.dateFilter s)
   \<and> UsersPage.currentPage (usersFilterEffect c s) = 1"
  by (simp add: usersFilterEffect_def Let_def)

lemma assistantsFilterEffect_fields:
  "assistants (assistantsFilterEffect c s) = assistants s
   \<and> filteredAssistants (assistantsFilterEffect c s)
       = filterAssistants c (assistants s) (searchTerm s) (AssistantsPage.statusFilter s)
           (AssistantsPage.dateFilter s)
   \<and> AssistantsPage.currentPage (assistantsFilterEffect c s) = 1"
  by (simp add: assistantsFilterEffect_def Let_def)

lemma paymentsFilterEffect_fields:
  "payments (paymentsFilterEffect c s) = payments s
   \<and> filteredPayments (paymentsFilterEffect c s)
       = filterPayments c (payments s) (searchTerm s) (PaymentsPage.statusFilter s)
           (PaymentsPage.dateFilter s)"
  by (simp add: paymentsFilterEffect_def Let_def)

text \<open>
  Claim C3 says that every record kind is stored newest-first after a fetch. The
  Admins page stores the normalized admins in the order of the response.
\<close>

theorem fetch_order_counterexample:
  "admins (fetchAdmins (Resolved (JArr [bareAdmin ''a1'', bareAdmin ''a2''])) initialAdminsPage)
     = [bareAdmin ''a1'', bareAdmin ''a2'']
   \<and> admins (fetchAdmins (Resolved (JArr [bareAdmin ''a1'', bareAdmin ''a2''])) initialAdminsPage)
     \<noteq> rev [bareAdmin ''a1'', bareAdmin ''a2'']"
  by (simp add: fetchAdmins_resolved extractAdminsFromResponse_def bareAdmin_def)

text \<open>
  Claim C3, as the code has it. After a successful fetch the Users, Assistants and
  Payments pages store the normalized collection reversed; the Admins page stores
  it as normalized. The reversal happens in the fetch only: the filter effect,
  which recomputes the derived view, leaves the stored collection as it is and
  derives a subsequence of it in the stored order.
\<close>

theorem fetch_stores_newest_first:
  "users (fetchUsers (Resolved du) su) = rev (extractUsersFromResponse du)
   \<and> assistants (fetchAssistants (Resolved da) sa) = rev (extractAssistantsFromResponse da)
   \<and> payments (fetchPayments (Resolved dp) sp) = rev (extractPaymentsFromResponse dp)
   \<and> admins (fetchAdmins (Resolved dm) sm) = extractAdminsFromResponse dm
   \<and> users (usersFilterEffect c su') = users su'
   \<and> subseq (filteredUsers (usersFilterEffect c su')) (users su')
   \<and> assistants (assistantsFilterEffect c sa') = assistants sa'
   \<and> subseq (filteredAssistants (assistantsFilterEffect c sa')) (assistants sa')
   \<and> payments (paymentsFilterEffect c sp') = payments sp'
   \<and> subseq (filteredPayments (paymentsFilterEffect c sp')) (payments sp')"
  by (simp only: fetchUsers_resolved fetchAssistants_resolved fetchPayments_resolved
        fetchAdmins_resolved usersFilterEffect_fields assistantsFilterEffect_fields
        paymentsFilterEffect_fields subseq_filterUsers subseq_filterAssistants
        subseq_filterPayments simp_thms)

lemma filterUsers_neutral: "filterUsers c us [] ''all'' ''all'' = us"
  by (simp add: filterUsers_def)

theorem fetch_stores_newest_first_witness:
  "users (loadUsers (clockAt 0 0 [] 0)
       (Resolved (JObj [(''success'', JBool True),
                        (''data'', JArr [bareUser ''u1'', bareUser ''u2'', bareUser ''u3''])]))
       initialUsersPage)
     = [bareUser ''u3'', bareUser ''u2'', bareUser ''u1'']
   \<and> filteredUsers (loadUsers (clockAt 0 0 [] 0)
       (Resolved (JObj [(''success'', JBool True),
                        (''data'', JArr [bareUser ''u1'', bareUser ''u2'', bareUser ''u3''])]))
       initialUsersPage)
     = [bareUser ''u3'', bareUser ''u2'', bareUser ''u1'']"
proof -
  let ?d = "JObj [(''success'', JBool True),
                  (''data'', JArr [bareUser ''u1'', bareUser ''u2'', bareUser ''u3''])]"
  have ex: "extractUsersFromResponse ?d = [bareUser ''u1'', bareUser ''u2'', bareUser ''u3'']"
    by (simp add: extractUsersFromResponse_def)
  have st: "searchTerm (fetchUsers (Resolved ?d) initialUsersPage) = []
     \<and> planFilter (fetchUsers (Resolved ?d) initialUsersPage) = ''all''
     \<and> UsersPage.dateFilter (fetchUsers (Resolved ?d) initialUsersPage) = ''all''"
    by (simp add: fetchUsers_def initialUsersPage_def emit_def Let_def)
  show ?thesis
    using fetch_stores_newest_first
      [of ?d initialUsersPage "JNull :: Assistant jsval" initialAssistantsPage
          "JNull :: Payment jsval" initialPaymentsPage "JNull :: Admin jsval" initialAdminsPage
          "clockAt 0 0 [] 0" "fetchUsers (Resolved ?d) initialUsersPage"
          initialAssistantsPage initialPaymentsPage]
    by (simp add: loadUsers_def usersFilterEffect_fields ex st filterUsers_neutral)
qed

section \<open>Properties of the pagination\<close>

lemma slice_page:
  assumes "1 \<le> p"
  shows "slice xs (p * itemsPerPage - itemsPerPage) (p * itemsPerPage)
           = take 10 (drop (nat ((p - 1) * 10)) xs)"
proof -
  define n where "n = int (length xs)"
  define lo where "lo = (p - 1) * 10"
  have lo0: "0 \<le> lo" using assms by (simp add: lo_def)
  have s: "slice xs (p * itemsPerPage - itemsPerPage) (p * itemsPerPage)
             = take (nat (min (lo + 10) n - min lo n)) (drop (nat (min lo n)) xs)"
    using lo0 by (simp add: slice_def itemsPerPage_def Let_def n_def lo_def algebra_simps)
  show ?thesis
  proof (cases "n \<le> lo")
    case True
    then have "length xs \<le> nat lo" by (simp add: n_def)
    then have "drop (nat lo) xs = []" by simp
    moreover have "min lo n = n" "min (lo + 10) n = n" using True by simp_all
    ultimately show ?thesis unfolding s lo_def [symmetric] by (simp add: n_def)
  next
    case False
    then have m: "min lo n = lo" by simp
    show ?thesis
    proof (cases "n \<le> lo + 10")
      case True
      then have h: "min (lo + 10) n = n" by simp
      have len: "length (drop (nat lo) xs) = nat (n - lo)"
        using lo0 False by (simp add: n_def nat_diff_distrib')
      have "nat (n - lo) \<le> 10" using True by simp
      then have "take 10 (drop (nat lo) xs) = drop (nat lo) xs"
        using len by simp
      moreover have "take (nat (n - lo)) (drop (nat lo) xs) = drop (nat lo) xs"
        using len by simp
      ultimately show ?thesis unfolding s lo_def [symmetric] m h by simp
    next
      case False
      then have h: "min (lo + 10) n = lo + 10" by simp
      show ?thesis unfolding s lo_def [symmetric] m h by simp
    qed
  qed
qed

lemma currentUsers_page:
  "1 \<le> UsersPage.currentPage s \<Longrightarrow>
     currentUsers s = take 10 (drop (nat ((UsersPage.currentPage s - 1) * 10)) (filteredUsers s))"
  by (simp add: currentUsers_def Let_def slice_page)

lemma currentAssistants_page:
  "1 \<le> AssistantsPage.currentPage s \<Longrightarrow>
     currentAssistants s
       = take 10 (drop (nat ((AssistantsPage.currentPage s - 1) * 10)) (filteredAssistants s))"
  by (simp add: currentAssistants_def Let_def slice_page)

lemma users_inputs_reset:
  "(v \<noteq> searchTerm s \<longrightarrow> UsersPage.currentPage (setSearchTerm_users c v s) = 1)
   \<and> (v \<noteq> planFilter s \<longrightarrow> UsersPage.currentPage (setPlanFilter c v s) = 1)
   \<and> (v \<noteq> UsersPage.dateFilter s \<longrightarrow> UsersPage.currentPage (setDateFilter_users c v s) = 1)"
  by (simp add: setSearchTerm_users_def setPlanFilter_def setDateFilter_users_def
        usersFilterEffect_def Let_def)

lemma assistants_inputs_reset:
  "(v \<noteq> searchTerm s \<longrightarrow> AssistantsPage.currentPage (setSearchTerm_assistants c v s) = 1)
   \<and> (v \<noteq> AssistantsPage.statusFilter s \<longrightarrow>
        AssistantsPage.currentPage (setStatusFilter_assistants c v s) = 1)
   \<and> (v \<noteq> AssistantsPage.dateFilter s \<longrightarrow>
        AssistantsPage.currentPage (setDateFilter_assistants c v s) = 1)"
  by (simp add: setSearchTerm_assistants_def setStatusFilter_assistants_def
        setDateFilter_assistants_def assistantsFilterEffect_def Let_def)

lemma filterPayments_neutral: "filterPayments c ps [] ''all'' ''all'' = ps"
  by (simp add: filterPayments_def)

text \<open>
  Claim C4 says that every list-bearing view shows one page of 10 records. The
  Payments page has no page number: after a fetch of eleven payments its table has
  eleven rows.
\<close>

theorem pagination_counterexample:
  "length (paymentRows (loadPayments (clockAt 0 0 [] 0)
      (Resolved (JArr (map barePayment
         [''p01'', ''p02'', ''p03'', ''p04'', ''p05'', ''p06'',
          ''p07'', ''p08'', ''p09'', ''p10'', ''p11''])))
      initialPaymentsPage)) = 11"
  by (simp add: paymentRows_def loadPayments_def paymentsFilterEffect_def fetchPayments_def
        extractPaymentsFromResponse_def initialPaymentsPage_def emit_def Let_def
        filterPayments_neutral)

text \<open>
  Claim C4, as the code has it. The Users and Assistants pages have a fixed page
  size of 10; with the page number at least 1, the desktop table shows the
  records of the filtered sequence at the positions from \<open>(page - 1) * 10\<close> up to,
  and not including, \<open>page * 10\<close>; and giving the search term, the categorical
  filter or the date filter a new value sets the page number to 1. The Payments
  and Admins pages are not paginated: they show every filtered record.
\<close>

theorem pagination_users_assistants:
  "itemsPerPage = 10
   \<and> (1 \<le> UsersPage.currentPage su \<longrightarrow>
        currentUsers su
          = take 10 (drop (nat ((UsersPage.currentPage su - 1) * 10)) (filteredUsers su)))
   \<and> (1 \<le> AssistantsPage.currentPage sa \<longrightarrow>
        currentAssistants sa
          = take 10 (drop (nat ((AssistantsPage.currentPage sa - 1) * 10)) (filteredAssistants sa)))
   \<and> (v \<noteq> searchTerm su \<longrightarrow> UsersPage.currentPage (setSearchTerm_users c v su) = 1)
   \<and> (v \<noteq> planFilter su \<longrightarrow> UsersPage.currentPage (setPlanFilter c v su) = 1)
   \<and> (v \<noteq> UsersPage.dateFilter su \<longrightarrow> UsersPage.currentPage (setDateFilter_users c v su) = 1)
   \<and> (v \<noteq> searchTerm sa \<longrightarrow> AssistantsPage.currentPage (setSearchTerm_assistants c v sa) = 1)
   \<and> (v \<noteq> AssistantsPage.statusFilter sa \<longrightarrow>
        AssistantsPage.currentPage (setStatusFilter_assistants c v sa) = 1)
   \<and> (v \<noteq> AssistantsPage.dateFilter sa \<longrightarrow>
        AssistantsPage.currentPage (setDateFilter_assistants c v sa) = 1)
   \<and> paymentRows sp = filteredPayments sp
   \<and> adminRows sm = filteredAdmins (admins sm) (searchTerm sm)"
  using currentUsers_page [of su] currentAssistants_page [of sa]
    users_inputs_reset [of v su c] assistants_inputs_reset [of v sa c]
  by (simp add: itemsPerPage_def paymentRows_def adminRows_def)

theorem pagination_users_assistants_witness:
  "UsersPage.currentPage
     (nextPage_users (loadUsers (clockAt 0 0 [] 0)
        (Resolved (JObj [(''data'', JArr (map bareUser
           [''u01'', ''u02'', ''u03'', ''u04'', ''u05'', ''u06'',
            ''u07'', ''u08'', ''u09'', ''u10'', ''u11'', ''u12'']))]))
        initialUsersPage)) = 2
   \<and> currentUsers
     (nextPage_users (loadUsers (clockAt 0 0 [] 0)
        (Resolved (JObj [(''data'', JArr (map bareUser
           [''u01'', ''u02'', ''u03'', ''u04'', ''u05'', ''u06'',
            ''u07'', ''u08'', ''u09'', ''u10'', ''u11'', ''u12'']))]))
        initialUsersPage)) = [bareUser ''u02'', bareUser ''u01'']
   \<and> UsersPage.currentPage
     (setSearchTerm_users (clockAt 0 0 [] 0) ''u0''
        (nextPage_users (loadUsers (clockAt 0 0 [] 0)
           (Resolved (JObj [(''data'', JArr (map bareUser
              [''u01'', ''u02'', ''u03'', ''u04'', ''u05'', ''u06'',
               ''u07'', ''u08'', ''u09'', ''u10'', ''u11'', ''u12'']))]))
           initialUsersPage))) = 1"
proof -
  define s where "s = nextPage_users (loadUsers (clockAt 0 0 [] 0)
        (Resolved (JObj [(''data'', JArr (map bareUser
           [''u01'', ''u02'', ''u03'', ''u04'', ''u05'', ''u06'',
            ''u07'', ''u08'', ''u09'', ''u10'', ''u11'', ''u12'']))]))
        initialUsersPage)"
  have f: "filteredUsers s = map bareUser
           [''u12'', ''u11'', ''u10'', ''u09'', ''u08'', ''u07'',
            ''u06'', ''u05'', ''u04'', ''u03'', ''u02'', ''u01'']"
    by (simp add: s_def nextPage_users_def loadUsers_def usersFilterEffect_def fetchUsers_def
          extractUsersFromResponse_def initialUsersPage_def emit_def Let_def filterUsers_def)
  have t: "searchTerm s = []"
    by (simp add: s_def nextPage_users_def loadUsers_def usersFilterEffect_def fetchUsers_def
          initialUsersPage_def emit_def Let_def)
  have p: "UsersPage.currentPage s = 2"
    by (simp add: s_def nextPage_users_def totalPages_users_def loadUsers_def
          usersFilterEffect_def fetchUsers_def extractUsersFromResponse_def
          initialUsersPage_def emit_def Let_def filterUsers_def itemsPerPage_def)
  show ?thesis
    using pagination_users_assistants
      [of s initialAssistantsPage "''u0''" "clockAt 0 0 [] 0" initialPaymentsPage
          initialAdminsPage]
    unfolding s_def [symmetric]
    by (simp add: f t p)
qed

section \<open>Properties of a fetch that is refused\<close>

lemma slice_Nil: "slice [] i j = []"
  by (simp add: slice_def Let_def)

lemma fetchUsers_401:
  "users (fetchUsers (Rejected (Some 401) m) s) = []
   \<and> filteredUsers (fetchUsers (Rejected (Some 401) m) s) = []
   \<and> effects (fetchUsers (Rejected (Some 401) m) s)
       = effects s @ [HttpGet USERS_ENDPOINT, ToastError ''Failed to load user data.'',
                      ToastError ''Access denied. Please check permissions.'']"
  by (simp add: fetchUsers_def emit_def Let_def)

lemma fetchAssistants_401:
  "assistants (fetchAssistants (Rejected (Some 401) m) s) = []
   \<and> filteredAssistants (fetchAssistants (Rejected (Some 401) m) s) = []
   \<and> effects (fetchAssistants (Rejected (Some 401) m) s)
       = effects s @ [HttpGet ASSISTANTS_ENDPOINT,
                      ToastError ''Access denied. Please check permissions.'']"
  by (simp add: fetchAssistants_def emit_def Let_def)

lemma fetchPayments_401:
  "payments (fetchPayments (Rejected (Some 401) m) s) = []
   \<and> filteredPayments (fetchPayments (Rejected (Some 401) m) s) = []
   \<and> effects (fetchPayments (Rejected (Some 401) m) s)
       = effects s @ [HttpGet PAYMENTS_ENDPOINT, ToastError ''Failed to load payment data.'',
                      Navigate ''/'']"
  by (simp add: fetchPayments_def emit_def Let_def)

lemma fetchAdmins_401:
  "admins (fetchAdmins (Rejected (Some 401) m) s) = []"
  by (simp add: fetchAdmins_def emit_def Let_def)

lemma filterUsers_Nil: "filterUsers c [] t pf df = []"
  by (simp add: filterUsers_def)

lemma filterAssistants_Nil: "filterAssistants c [] t pf df = []"
  by (simp add: filterAssistants_def)

lemma filterPayments_Nil: "filterPayments c [] t pf df = []"
  by (simp add: filterPayments_def)

lemma shown_after_401:
  "currentUsers (loadUsers c (Rejected (Some 401) m) su) = []
   \<and> currentAssistants (loadAssistants c (Rejected (Some 401) m) sa) = []
   \<and> paymentRows (loadPayments c (Rejected (Some 401) m) sp) = []
   \<and> adminRows (fetchAdmins (Rejected (Some 401) m) sm) = Inr []"
  by (simp add: currentUsers_def loadUsers_def usersFilterEffect_def
        currentAssistants_def loadAssistants_def assistantsFilterEffect_def
        paymentRows_def loadPayments_def paymentsFilterEffect_def
        adminRows_def filteredAdmins_def
        fetchUsers_401 fetchAssistants_401 fetchPayments_401 fetchAdmins_401
        filterUsers_Nil filterAssistants_Nil filterPayments_Nil slice_Nil Let_def)

text \<open>
  Claim C8 says that every list-bearing view redirects when its fetch fails with
  HTTP 401. The Users page shows two notifications and asks for no navigation.
\<close>

theorem unauthorized_counterexample:
  "effects (fetchUsers (Rejected (Some 401) None) initialUsersPage)
     = [HttpGet USERS_ENDPOINT, ToastError ''Failed to load user data.'',
        ToastError ''Access denied. Please check permissions.'']
   \<and> Navigate ''/'' \<notin> set (effects (fetchUsers (Rejected (Some 401) None) initialUsersPage))
   \<and> Navigate ''/login'' \<notin> set (effects (fetchUsers (Rejected (Some 401) None) initialUsersPage))"
  by (simp add: fetchUsers_401 initialUsersPage_def)

text \<open>
  Claim C8, as the code has it. When the fetch fails with HTTP 401, every page
  empties its collection (and its filtered collection), so that the view rendered
  afterwards shows no record. The Payments page then navigates to \<^verbatim>\<open>/\<close>, where
  the application shows its login page; the Users and Assistants pages show an
  access-denied notification and do not navigate.
\<close>

theorem unauthorized_fetch_empties:
  "(users (fetchUsers (Rejected (Some 401) m) su) = []
    \<and> filteredUsers (fetchUsers (Rejected (Some 401) m) su) = []
    \<and> effects (fetchUsers (Rejected (Some 401) m) su)
        = effects su @ [HttpGet USERS_ENDPOINT, ToastError ''Failed to load user data.'',
                        ToastError ''Access denied. Please check permissions.''])
   \<and> (assistants (fetchAssistants (Rejected (Some 401) m) sa) = []
    \<and> filteredAssistants (fetchAssistants (Rejected (Some 401) m) sa) = []
    \<and> effects (fetchAssistants (Rejected (Some 401) m) sa)
        = effects sa @ [HttpGet ASSISTANTS_ENDPOINT,
                        ToastError ''Access denied. Please check permissions.''])
   \<and> (payments (fetchPayments (Rejected (Some 401) m) sp) = []
    \<and> filteredPayments (fetchPayments (Rejected (Some 401) m) sp) = []
    \<and> effects (fetchPayments (Rejected (Some 401) m) sp)
        = effects sp @ [HttpGet PAYMENTS_ENDPOINT, ToastError ''Failed to load payment data.'',
                        Navigate ''/''])
   \<and> admins (fetchAdmins (Rejected (Some 401) m) sm) = []
   \<and> currentUsers (loadUsers c (Rejected (Some 401) m) su) = []
   \<and> currentAssistants (loadAssistants c (Rejected (Some 401) m) sa) = []
   \<and> paymentRows (loadPayments c (Rejected (Some 401) m) sp) = []
   \<and> adminRows (fetchAdmins (Rejected (Some 401) m) sm) = Inr []"
  using fetchUsers_401 [of m su] fetchAssistants_401 [of m sa] fetchPayments_401 [of m sp]
    fetchAdmins_401 [of m sm] shown_after_401 [of c m su sa sp sm]
  by blast

lemma loadPayments_two:
  "payments (loadPayments (clockAt 0 0 [] 0)
       (Resolved (JArr [barePayment ''p1'', barePayment ''p2''])) initialPaymentsPage)
     = [barePayment ''p2'', barePayment ''p1'']"
  by (simp add: loadPayments_def paymentsFilterEffect_def fetchPayments_def
        extractPaymentsFromResponse_def initialPaymentsPage_def emit_def Let_def)

theorem unauthorized_fetch_empties_witness:
  "payments (loadPayments (clockAt 0 0 [] 0)
       (Resolved (JArr [barePayment ''p1'', barePayment ''p2''])) initialPaymentsPage)
     = [barePayment ''p2'', barePayment ''p1'']
   \<and> payments (fetchPayments (Rejected (Some 401) None)
        (loadPayments (clockAt 0 0 [] 0)
           (Resolved (JArr [barePayment ''p1'', barePayment ''p2''])) initialPaymentsPage)) = []
   \<and> paymentRows (loadPayments (clockAt 0 0 [] 0) (Rejected (Some 401) None)
        (loadPayments (clockAt 0 0 [] 0)
           (Resolved (JArr [barePayment ''p1'', barePayment ''p2''])) initialPaymentsPage)) = []"
  using unauthorized_fetch_empties
    [of None initialUsersPage initialAssistantsPage
        "loadPayments (clockAt 0 0 [] 0)
           (Resolved (JArr [barePayment ''p1'', barePayment ''p2''])) initialPaymentsPage"
        initialAdminsPage "clockAt 0 0 [] 0"]
    loadPayments_two
  by simp

section \<open>Properties of the payment verification\<close>

lemma prefix_effects_fetchPayments:
  "prefix (effects s) (effects (fetchPayments r s))"
  by (cases r) (simp_all add: fetchPayments_def emit_def Let_def)

lemma reject_blank_note:
  "trim (verificationNotes s) = [] \<Longrightarrow>
     handleVerifyPayment b pid Failed r1 r2 s
       = s\<lparr>effects := effects s @ [ToastError ''Please provide a reason for rejection'']\<rparr>"
  by (simp add: handleVerifyPayment_def emit_def)

lemma approve_sends:
  "prefix (effects s @ [HttpPost VERIFY_PAYMENT_ENDPOINT
                          [(''paymentId'', pid), (''status'', ''completed'')]])
     (effects (handleVerifyPayment b pid Completed r1 r2 s))"
proof (cases r1)
  case (Resolved data)
  show ?thesis
  proof (cases "success data")
    case True
    let ?s1 = "emit (ToastSuccess ''Payment verified successfully'')
                 (emit (HttpPost VERIFY_PAYMENT_ENDPOINT
                          [(''paymentId'', pid), (''status'', ''completed'')])
                    (s\<lparr>verifyingId := Some pid\<rparr>))"
    have e: "effects (handleVerifyPayment b pid Completed r1 r2 s) = effects (fetchPayments r2 ?s1)"
      using Resolved True by (simp add: handleVerifyPayment_def Let_def)
    have "prefix (effects ?s1) (effects (fetchPayments r2 ?s1))"
      by (rule prefix_effects_fetchPayments)
    moreover have "prefix (effects s @ [HttpPost VERIFY_PAYMENT_ENDPOINT
                          [(''paymentId'', pid), (''status'', ''completed'')]]) (effects ?s1)"
      by (simp add: emit_def)
    ultimately show ?thesis unfolding e by (rule prefix_order.trans [rotated])
  next
    case False
    with Resolved show ?thesis
      by (simp add: handleVerifyPayment_def emit_def Let_def)
  qed
next
  case (Rejected code msg)
  then show ?thesis
    by (simp add: handleVerifyPayment_def emit_def Let_def)
qed

text \<open>
  Claim C6. A reject (\<^verbatim>\<open>"failed"\<close>) whose note is empty or white space only
  shows the notification that a reason is required and does nothing else: no
  request is sent and no other part of the page changes. An approve
  (\<^verbatim>\<open>"completed"\<close>) sends the verify request whatever the note is.
\<close>

theorem reject_needs_note_approve_does_not:
  "(trim (verificationNotes s) = [] \<longrightarrow>
      handleVerifyPayment b pid Failed r1 r2 s
        = s\<lparr>effects := effects s @ [ToastError ''Please provide a reason for rejection'']\<rparr>
      \<and> requests (handleVerifyPayment b pid Failed r1 r2 s) = requests s)
   \<and> prefix (effects s @ [HttpPost VERIFY_PAYMENT_ENDPOINT
                            [(''paymentId'', pid), (''status'', ''completed'')]])
       (effects (handleVerifyPayment b pid Completed r1 r2 s))"
proof -
  have "trim (verificationNotes s) = [] \<longrightarrow>
      requests (handleVerifyPayment b pid Failed r1 r2 s) = requests s"
    by (simp add: reject_blank_note requests_def)
  then show ?thesis
    using reject_blank_note [of s b pid r1 r2] approve_sends [of s pid b r1 r2] by blast
qed

lemma trim_blank: "trim ''  '' = []"
  by (simp add: trim_def isWhiteSpace_def)

theorem reject_needs_note_approve_does_not_witness:
  "trim (verificationNotes (initialPaymentsPage\<lparr>verificationNotes := ''  ''\<rparr>)) = []
   \<and> effects (handleVerifyPayment (browserWith None) ''p1'' Failed
        (Resolved \<lparr>success = True, message = None\<rparr>) (Resolved JNull)
        (initialPaymentsPage\<lparr>verificationNotes := ''  ''\<rparr>))
     = [ToastError ''Please provide a reason for rejection'']
   \<and> prefix [HttpPost VERIFY_PAYMENT_ENDPOINT [(''paymentId'', ''p1''), (''status'', ''completed'')]]
       (effects (handleVerifyPayment (browserWith None) ''p1'' Completed
          (Resolved \<lparr>success = True, message = None\<rparr>) (Resolved JNull)
          (initialPaymentsPage\<lparr>verificationNotes := ''  ''\<rparr>)))"
  using reject_needs_note_approve_does_not
    [of "initialPaymentsPage\<lparr>verificationNotes := ''  ''\<rparr>" "browserWith None" "''p1''"
        "Resolved \<lparr>success = True, message = None\<rparr>" "Resolved JNull"]
  by (simp add: trim_blank initialPaymentsPage_def)

section \<open>Properties of the delete of an admin and of the token\<close>

lemma filter_other_idents:
  "distinct (map f xs) \<Longrightarrow> x \<in> set xs \<Longrightarrow>
     length (filter (\<lambda>a. f a \<noteq> f x) xs) + 1 = length xs"
proof (induction xs)
  case Nil
  then show ?case by simp
next
  case (Cons a xs)
  show ?case
  proof (cases "a = x")
    case True
    have "f x \<notin> f ` set xs"
      using Cons.prems(1) True by simp
    then have "\<forall>y \<in> set xs. f y \<noteq> f x"
      by (metis imageI)
    then have "filter (\<lambda>a. f a \<noteq> f x) xs = xs"
      by (simp add: filter_id_conv)
    with True show ?thesis by simp
  next
    case False
    then have x: "x \<in> set xs" using Cons.prems(2) by simp
    moreover have "f a \<notin> f ` set xs" using Cons.prems(1) by simp
    ultimately have "f a \<noteq> f x" by (metis imageI)
    moreover have "length (filter (\<lambda>a. f a \<noteq> f x) xs) + 1 = length xs"
      using Cons.IH Cons.prems(1) x by simp
    ultimately show ?thesis by simp
  qed
qed

lemma delete_success:
  assumes "confirmAnswer b (''Are you sure you want to delete '' @ nm @ ''?'')"
    and "getItem b ''authToken'' = Resolved tok" and "present tok"
  shows "handleDeleteAdmin b i nm (Resolved u) s
           = s\<lparr>effects := effects s @ [ConfirmDialog (''Are you sure you want to delete '' @ nm @ ''?''),
                                        HttpPost DELETE_ADMIN_ENDPOINT [(''id'', i)],
                                        ToastSuccess ''Admin deleted successfully''],
               admins := filter (\<lambda>admin. Admin.ident admin \<noteq> i) (admins s),
               deletingId := None\<rparr>"
  using assms by (simp add: handleDeleteAdmin_def emit_def Let_def)

lemma delete_failure_keeps:
  "admins (handleDeleteAdmin b i nm (Rejected code msg) s) = admins s"
  by (simp add: handleDeleteAdmin_def emit_def Let_def split: outcome.splits)

text \<open>
  Claim C7. In a collection whose identifiers are distinct, a delete of an admin of
  the collection that the user confirms, that finds the token and that the server
  accepts leaves a collection one shorter, in which no admin has the identifier of
  the deleted one; the only request sent is the delete request, so nothing is
  fetched again. A delete that the server rejects leaves the collection as it was.
\<close>

theorem delete_removes_exactly_one:
  assumes "distinct (map Admin.ident (admins s))"
    and "x \<in> set (admins s)"
    and "confirmAnswer b (''Are you sure you want to delete '' @ nm @ ''?'')"
    and "getItem b ''authToken'' = Resolved tok"
    and "present tok"
  shows "length (admins (handleDeleteAdmin b (Admin.ident x) nm (Resolved ()) s)) + 1
           = length (admins s)
     \<and> (\<forall>a \<in> set (admins (handleDeleteAdmin b (Admin.ident x) nm (Resolved ()) s)).
           Admin.ident a \<noteq> Admin.ident x)
     \<and> admins (handleDeleteAdmin b (Admin.ident x) nm (Resolved ()) s)
         = filter (\<lambda>a. Admin.ident a \<noteq> Admin.ident x) (admins s)
     \<and> requests (handleDeleteAdmin b (Admin.ident x) nm (Resolved ()) s)
         = requests s @ [HttpPost DELETE_ADMIN_ENDPOINT [(''id'', Admin.ident x)]]
     \<and> admins (handleDeleteAdmin b (Admin.ident x) nm (Rejected code msg) s) = admins s"
proof -
  note d = delete_success [OF assms(3-5), of "Admin.ident x" "()" s]
  have l: "length (filter (\<lambda>a. Admin.ident a \<noteq> Admin.ident x) (admins s)) + 1 = length (admins s)"
    using assms(1,2) by (rule filter_other_idents)
  show ?thesis
    unfolding d using l by (simp add: requests_def delete_failure_keeps)
qed

theorem delete_removes_exactly_one_witness:
  "distinct (map Admin.ident
      (admins (initialAdminsPage\<lparr>admins := [bareAdmin ''a1'', bareAdmin ''a2'', bareAdmin ''a3'']\<rparr>)))
   \<and> admins (handleDeleteAdmin (browserWith (Some ''token'')) ''a2'' ''undefined undefined''
        (Resolved ())
        (initialAdminsPage\<lparr>admins := [bareAdmin ''a1'', bareAdmin ''a2'', bareAdmin ''a3'']\<rparr>))
     = [bareAdmin ''a1'', bareAdmin ''a3'']
   \<and> requests (handleDeleteAdmin (browserWith (Some ''token'')) ''a2'' ''undefined undefined''
        (Resolved ())
        (initialAdminsPage\<lparr>admins := [bareAdmin ''a1'', bareAdmin ''a2'', bareAdmin ''a3'']\<rparr>))
     = [HttpPost DELETE_ADMIN_ENDPOINT [(''id'', ''a2'')]]"
proof -
  let ?s = "initialAdminsPage\<lparr>admins := [bareAdmin ''a1'', bareAdmin ''a2'', bareAdmin ''a3'']\<rparr>"
  have 1: "distinct (map Admin.ident (admins ?s))"
    by (simp add: bareAdmin_def)
  have 2: "bareAdmin ''a2'' \<in> set (admins ?s)" by simp
  have 3: "confirmAnswer (browserWith (Some ''token''))
             (''Are you sure you want to delete '' @ ''undefined undefined'' @ ''?'')"
    by (simp add: browserWith_def)
  have 4: "getItem (browserWith (Some ''token'')) ''authToken'' = Resolved (Some ''token'')"
    by (simp add: browserWith_def)
  have 5: "present (Some ''token'')" by (simp add: present_def)
  have i: "Admin.ident (bareAdmin ''a2'') = ''a2''" by (simp add: bareAdmin_def)
  show ?thesis
    using delete_removes_exactly_one [OF 1 2 3 4 5, of None None] 1
    by (simp add: i bareAdmin_def requests_def initialAdminsPage_def)
qed

lemma delete_without_token:
  assumes "getItem b ''authToken'' = Resolved tok" and "\<not> present tok"
    and "confirmAnswer b (''Are you sure you want to delete '' @ nm @ ''?'')"
  shows "handleDeleteAdmin b i nm r s
           = s\<lparr>effects := effects s @ [ConfirmDialog (''Are you sure you want to delete '' @ nm @ ''?''),
                                        ToastError ''Authentication required''],
               deletingId := None\<rparr>"
  using assms by (simp add: handleDeleteAdmin_def emit_def Let_def)

lemma verify_sends:
  assumes "\<not> (trim (verificationNotes s) = [] \<and> v = Failed)"
  shows "prefix (effects s @ [HttpPost VERIFY_PAYMENT_ENDPOINT
                          [(''paymentId'', pid), (''status'', verdictString v)]])
     (effects (handleVerifyPayment b pid v r1 r2 s))"
proof (cases r1)
  case (Resolved data)
  have g: "(trim (verificationNotes s) = [] \<and> v = Failed) = False"
    using assms by simp
  show ?thesis
  proof (cases "success data")
    case True
    let ?s1 = "emit (ToastSuccess (''Payment '' @ (if v = Completed then ''verified'' else ''rejected'')
                                   @ '' successfully''))
                 (emit (HttpPost VERIFY_PAYMENT_ENDPOINT
                          [(''paymentId'', pid), (''status'', verdictString v)])
                    (s\<lparr>verifyingId := Some pid\<rparr>))"
    have e: "effects (handleVerifyPayment b pid v r1 r2 s) = effects (fetchPayments r2 ?s1)"
      using Resolved True by (simp add: handleVerifyPayment_def Let_def g)
    have "prefix (effects ?s1) (effects (fetchPayments r2 ?s1))"
      by (rule prefix_effects_fetchPayments)
    moreover have "prefix (effects s @ [HttpPost VERIFY_PAYMENT_ENDPOINT
                          [(''paymentId'', pid), (''status'', verdictString v)]]) (effects ?s1)"
      by (simp add: emit_def)
    ultimately show ?thesis unfolding e by (rule prefix_order.trans [rotated])
  next
    case False
    with Resolved show ?thesis
      by (simp add: handleVerifyPayment_def emit_def Let_def g)
  qed
next
  case (Rejected code msg)
  have g: "(trim (verificationNotes s) = [] \<and> v = Failed) = False"
    using assms by simp
  with Rejected show ?thesis
    by (simp add: handleVerifyPayment_def emit_def Let_def)
qed

lemma verify_blocked:
  "trim (verificationNotes s) = [] \<and> v = Failed \<Longrightarrow>
     requests (handleVerifyPayment b pid v r1 r2 s) = requests s"
  by (simp add: handleVerifyPayment_def emit_def requests_def)

text \<open>
  Claim C9 says that both mutating calls are blocked when the token is absent. The
  verification of a payment sends its request from a browser whose store holds no
  token.
\<close>

theorem token_counterexample:
  "getItem (browserWith None) ''authToken'' = Resolved None
   \<and> requests (handleVerifyPayment (browserWith None) ''p1'' Completed
        (Rejected None None) (Rejected None None) initialPaymentsPage)
     = [HttpPost VERIFY_PAYMENT_ENDPOINT [(''paymentId'', ''p1''), (''status'', ''completed'')]]"
  by (simp add: browserWith_def handleVerifyPayment_def initialPaymentsPage_def emit_def
        requests_def trim_def orDefault_def Let_def)

text \<open>
  Claim C9, as the code has it. The delete of an admin reads the persisted token
  before it sends anything; when the token is absent (or empty) it shows the
  notification that authentication is required, sends no request and leaves the
  collection as it is. The verification of a payment does not consult the token:
  whatever the browser store holds, it sends its request unless it is a reject
  with a blank note, and then it sends nothing. The note of a reject is its only
  client-side precondition.
\<close>

theorem delete_consults_token:
  "(getItem b ''authToken'' = Resolved tok \<and> \<not> present tok
      \<and> confirmAnswer b (''Are you sure you want to delete '' @ nm @ ''?'') \<longrightarrow>
        handleDeleteAdmin b i nm r s
          = s\<lparr>effects := effects s
                  @ [ConfirmDialog (''Are you sure you want to delete '' @ nm @ ''?''),
                     ToastError ''Authentication required''],
              deletingId := None\<rparr>
        \<and> requests (handleDeleteAdmin b i nm r s) = requests s
        \<and> admins (handleDeleteAdmin b i nm r s) = admins s)
   \<and> (\<not> (trim (verificationNotes sp) = [] \<and> v = Failed) \<longrightarrow>
        prefix (effects sp @ [HttpPost VERIFY_PAYMENT_ENDPOINT
                                [(''paymentId'', pid), (''status'', verdictString v)]])
          (effects (handleVerifyPayment b pid v r1 r2 sp)))
   \<and> (trim (verificationNotes sp) = [] \<and> v = Failed \<longrightarrow>
        requests (handleVerifyPayment b pid v r1 r2 sp) = requests sp)"
proof -
  have "getItem b ''authToken'' = Resolved tok \<and> \<not> present tok
      \<and> confirmAnswer b (''Are you sure you want to delete '' @ nm @ ''?'') \<longrightarrow>
        handleDeleteAdmin b i nm r s
          = s\<lparr>effects := effects s
                  @ [ConfirmDialog (''Are you sure you want to delete '' @ nm @ ''?''),
                     ToastError ''Authentication required''],
              deletingId := None\<rparr>
        \<and> requests (handleDeleteAdmin b i nm r s) = requests s
        \<and> admins (handleDeleteAdmin b i nm r s) = admins s"
    by (simp add: delete_without_token requests_def)
  then show ?thesis
    using verify_sends [of sp v pid b r1 r2] verify_blocked [of sp v b pid r1 r2] by blast
qed

lemma trim_reason: "trim ''charged twice'' \<noteq> []"
  by (simp add: trim_def isWhiteSpace_def)

theorem delete_consults_token_witness:
  "getItem (browserWith None) ''authToken'' = Resolved None
   \<and> effects (handleDeleteAdmin (browserWith None) ''a1'' ''Ann Lee'' (Resolved ())
        (initialAdminsPage\<lparr>admins := [bareAdmin ''a1'']\<rparr>))
     = [ConfirmDialog ''Are you sure you want to delete Ann Lee?'',
        ToastError ''Authentication required'']
   \<and> admins (handleDeleteAdmin (browserWith None) ''a1'' ''Ann Lee'' (Resolved ())
        (initialAdminsPage\<lparr>admins := [bareAdmin ''a1'']\<rparr>))
     = [bareAdmin ''a1'']
   \<and> prefix [HttpPost VERIFY_PAYMENT_ENDPOINT [(''paymentId'', ''p1''), (''status'', ''failed'')]]
       (effects (handleVerifyPayment (browserWith None) ''p1'' Failed
          (Rejected None None) (Rejected None None)
          (initialPaymentsPage\<lparr>verificationNotes := ''charged twice''\<rparr>)))"
  using delete_consults_token
    [of "browserWith None" None "''Ann Lee''" "''a1''" "Resolved ()"
        "initialAdminsPage\<lparr>admins := [bareAdmin ''a1'']\<rparr>"
        "initialPaymentsPage\<lparr>verificationNotes := ''charged twice''\<rparr>" Failed
        "''p1''" "Rejected None None" "Rejected None None"]
    trim_reason
  by (simp add: browserWith_def present_def initialAdminsPage_def initialPaymentsPage_def)

section \<open>Properties of the payment amounts\<close>

lemma totalAmount_foldl:
  "totalAmount (calculateStats add ps) =
     foldl (\<lambda>sum q. add sum (getSafeAmount q)) 0
       (filter (\<lambda>q. getSafeStatus_payment q = ''completed'') ps)"
  by (simp add: calculateStats_def)

lemma getSafeAmount_fallback:
  "Payment.amount p = None \<or> Payment.amount p = Some 0 \<Longrightarrow>
     getSafeAmount p = (case Payment.planPrice p of None \<Rightarrow> 0 | Some v \<Rightarrow> v)"
  by (auto simp: getSafeAmount_def numOr_def numOrZero_def split: option.splits)

lemma amountCell_getSafeAmount:
  "amountCell numberFormat p = numberFormat (getSafeAmount p) (getSafeCurrency p)"
proof -
  have cur: "orDefault (Some (getSafeCurrency p)) ''GBP'' = getSafeCurrency p"
    by (simp add: orDefault_def getSafeCurrency_def split: option.splits)
  show ?thesis
    by (simp add: amountCell_def formatCurrency_def numOrZero_def cur)
qed

text \<open>
  Claim C10. For a payment whose charged amount is absent or zero, the safe amount
  is the plan price, and zero only when the plan price is absent too. That value is
  the amount handed to the currency formatter for the amount cell, and it is the
  term that the total of the statistics adds for the payment when it is completed:
  the total of a collection is the left fold, from the total of the payments
  before it plus the plan price, over the completed payments after it. This holds
  for every addition, the rounding addition of doubles among them. (In the
  witness the amounts are small integers, on which that addition is exact.)
\<close>

theorem safe_amount_plan_price:
  "Payment.amount p = None \<or> Payment.amount p = Some 0 \<Longrightarrow>
     getSafeAmount p = (case Payment.planPrice p of None \<Rightarrow> 0 | Some v \<Rightarrow> v)
     \<and> amountCell numberFormat p =
         numberFormat (case Payment.planPrice p of None \<Rightarrow> 0 | Some v \<Rightarrow> v) (getSafeCurrency p)
     \<and> (getSafeStatus_payment p = ''completed'' \<longrightarrow>
          totalAmount (calculateStats add (ps @ p # qs)) =
            foldl (\<lambda>sum q. add sum (getSafeAmount q))
              (add (totalAmount (calculateStats add ps))
                   (case Payment.planPrice p of None \<Rightarrow> 0 | Some v \<Rightarrow> v))
              (filter (\<lambda>q. getSafeStatus_payment q = ''completed'') qs))"
proof -
  assume a: "Payment.amount p = None \<or> Payment.amount p = Some 0"
  have g: "getSafeAmount p = (case Payment.planPrice p of None \<Rightarrow> 0 | Some v \<Rightarrow> v)"
    using a by (rule getSafeAmount_fallback)
  have tot: "getSafeStatus_payment p = ''completed'' \<longrightarrow>
      totalAmount (calculateStats add (ps @ p # qs)) =
        foldl (\<lambda>sum q. add sum (getSafeAmount q))
          (add (totalAmount (calculateStats add ps)) (getSafeAmount p))
          (filter (\<lambda>q. getSafeStatus_payment q = ''completed'') qs)"
    by (simp add: totalAmount_foldl)
  show ?thesis
    using g tot amountCell_getSafeAmount [of numberFormat p] by simp
qed

theorem safe_amount_plan_price_witness:
  "Payment.amount
     ((barePayment ''p1'')\<lparr>Payment.planPrice := Some 49, Payment.status := Some ''completed''\<rparr>)
     = None
   \<and> getSafeAmount
       ((barePayment ''p1'')\<lparr>Payment.planPrice := Some 49, Payment.status := Some ''completed''\<rparr>)
     = 49
   \<and> totalAmount (calculateStats (+)
        [(barePayment ''p2'')\<lparr>Payment.amount := Some 20, Payment.status := Some ''completed''\<rparr>,
         (barePayment ''p1'')\<lparr>Payment.planPrice := Some 49, Payment.status := Some ''completed''\<rparr>,
         (barePayment ''p3'')\<lparr>Payment.amount := Some 5, Payment.status := Some ''completed''\<rparr>])
     = 74"
  using safe_amount_plan_price
    [of "(barePayment ''p1'')\<lparr>Payment.planPrice := Some 49, Payment.status := Some ''completed''\<rparr>"
        "\<lambda>a c. c" "(+)"
        "[(barePayment ''p2'')\<lparr>Payment.amount := Some 20, Payment.status := Some ''completed''\<rparr>]"
        "[(barePayment ''p3'')\<lparr>Payment.amount := Some 5, Payment.status := Some ''completed''\<rparr>]"]
  by (simp add: barePayment_def getSafeStatus_payment_def orDefault_def calculateStats_def
        getSafeAmount_def numOr_def numOrZero_def)

section \<open>Properties of the date buckets\<close>



















section \<open>Properties of the search of the Admins page\<close>

lemma filterThrowing_total:
  "\<forall>x \<in> set xs. \<exists>b. p x = Inr b \<Longrightarrow>
     filterThrowing p xs = Inr (filter (\<lambda>x. p x = Inr True) xs)"
proof (induction xs)
  case Nil
  then show ?case by simp
next
  case (Cons x xs)
  then obtain b where b: "p x = Inr b" by auto
  have "filterThrowing p xs = Inr (filter (\<lambda>x. p x = Inr True) xs)"
    using Cons by simp
  with b show ?case by simp
qed

lemma adminMatches_total:
  "Admin.email a = Given e \<Longrightarrow> \<exists>b. adminMatches t a = Inr b"
  by (auto simp: adminMatches_def)

lemma filteredAdmins_total:
  "\<forall>a \<in> set xs. \<exists>e. Admin.email a = Given e \<Longrightarrow>
     filteredAdmins xs t = Inr (filter (\<lambda>a. adminMatches t a = Inr True) xs)"
  unfolding filteredAdmins_def
  by (rule filterThrowing_total) (auto dest: adminMatches_total)

text \<open>
  Claim C2 says that no search crashes on a record whose email is absent. The
  search of the Admins page guards the phone number and the role and calls
  \<^verbatim>\<open>toLowerCase\<close> on the email as it is: on an admin without email, whether
  given to the filter or fetched into the page, it throws as soon as the search
  term does not match the name. With the email present the same search returns
  its result.
\<close>

theorem admin_search_throws:
  "filteredAdmins
     [(bareAdmin ''a1'')\<lparr>Admin.firstname := Given ''Ann'', Admin.lastname := Given ''Lee'',
                          Admin.phonenumber := Given ''555''\<rparr>] ''z''
     = Inl TypeError
   \<and> adminRows
       ((fetchAdmins
           (Resolved (JArr [(bareAdmin ''a1'')\<lparr>Admin.firstname := Given ''Ann'',
                              Admin.lastname := Given ''Lee'', Admin.phonenumber := Given ''555''\<rparr>]))
           initialAdminsPage)\<lparr>searchTerm := ''z''\<rparr>)
     = Inl TypeError
   \<and> filteredAdmins
     [(bareAdmin ''a1'')\<lparr>Admin.firstname := Given ''Ann'', Admin.lastname := Given ''Lee'',
                          Admin.email := Given ''ann@example.org''\<rparr>] ''z''
     = Inr []"
  by code_simp

end
